theory Spec2Isabelle
  imports Complex_Main
begin

section \<open>JavaScript values used by the scraper and the server\<close>

text \<open>
  Strings are lists of 8-bit characters: a \<^typ>\<open>char\<close> stands for a UTF-16 code unit
  below 256 (the Latin-1 range).  \<open>toLowerCase\<close> and \<open>trim\<close> are modelled on that range;
  text outside it is not represented.
\<close>

definition toLowerChar :: "char \<Rightarrow> char" where
  "toLowerChar c =
     (let n = (of_char c :: nat)
      in if (65 \<le> n \<and> n \<le> 90) \<or> (192 \<le> n \<and> n \<le> 222 \<and> n \<noteq> 215)
         then char_of (n + 32) else c)"

definition toLowerCase :: "string \<Rightarrow> string" where
  "toLowerCase s = map toLowerChar s"

definition isWhiteSpace :: "char \<Rightarrow> bool" where
  "isWhiteSpace c = ((of_char c :: nat) \<in> {9, 10, 11, 12, 13, 32, 160})"

definition trim :: "string \<Rightarrow> string" where
  "trim s = rev (dropWhile isWhiteSpace (rev (dropWhile isWhiteSpace s)))"

fun startsWith :: "string \<Rightarrow> string \<Rightarrow> bool" where
  "startsWith s [] = True"
| "startsWith [] (k # ks) = False"
| "startsWith (c # cs) (k # ks) = (c = k \<and> startsWith cs ks)"

text \<open>\<open>s.includes(k)\<close> (the name is an Isabelle keyword, hence the prefix): the string \<open>k\<close> occurs in \<open>s\<close> at some position.\<close>

fun str_includes :: "string \<Rightarrow> string \<Rightarrow> bool" where
  "str_includes [] k = (k = [])"
| "str_includes (c # cs) k = (startsWith (c # cs) k \<or> str_includes cs k)"

text \<open>
  An object literal inherits from \<open>Object.prototype\<close>: a property read \<open>obj[key]\<close> that
  finds no own property continues there.  These are the names \<open>Object.prototype\<close>
  defines; all of them hold functions, except the accessor \<open>__proto__\<close>, which yields
  the prototype object itself.  Every one of these values is truthy.
\<close>

definition objectPrototypeFunctions :: "string list" where
  "objectPrototypeFunctions =
     [''constructor'', ''__defineGetter__'', ''__defineSetter__'', ''hasOwnProperty'',
      ''__lookupGetter__'', ''__lookupSetter__'', ''isPrototypeOf'',
      ''propertyIsEnumerable'', ''toString'', ''valueOf'', ''toLocaleString'']"

definition inheritedName :: "string \<Rightarrow> bool" where
  "inheritedName k = (k = ''__proto__'' \<or> k \<in> set objectPrototypeFunctions)"

section \<open>Status normalisation (3CX web client, \<open>getStatus\<close>)\<close>

text \<open>The table \<open>statusMap\<close>, in the order of the object literal.\<close>

definition statusMap :: "(string \<times> string) list" where
  "statusMap =
     [(''available'', ''available''), (''online'', ''available''), (''ready'', ''available''),
      (''free'', ''available''), (''active'', ''available''),
      (''away'', ''away''), (''idle'', ''away''), (''break'', ''away''), (''lunch'', ''away''),
      (''brb'', ''away''), (''be right back'', ''away''),
      (''dnd'', ''dnd''), (''busy'', ''dnd''), (''do not disturb'', ''dnd''),
      (''meeting'', ''dnd''), (''in a meeting'', ''dnd''), (''on break'', ''dnd''),
      (''offline'', ''offline''), (''unavailable'', ''offline''), (''logged out'', ''offline''),
      (''disconnected'', ''offline''),
      (''on-call'', ''on-call''), (''in-call'', ''on-call''), (''talking'', ''on-call''),
      (''on call'', ''on-call''), (''in call'', ''on-call''), (''on the phone'', ''on-call''),
      (''on a call'', ''on-call'')]"

text \<open>
  What \<open>normalizeStatus\<close> can return besides \<open>null\<close>: a string of the table, or a member
  inherited from \<open>Object.prototype\<close> when the lower-cased text is such a name.
\<close>

datatype normalized = StatusString string | InheritedMember string

definition normalizeStatus :: "string \<Rightarrow> normalized option" where
  "normalizeStatus rawStatus =
     (if rawStatus = [] then None
      else
        let lowerStatus = trim (toLowerCase rawStatus)
        in case map_of statusMap lowerStatus of
             Some v \<Rightarrow> Some (StatusString v)
           | None \<Rightarrow>
               if inheritedName lowerStatus then Some (InheritedMember lowerStatus)
               else (case find (\<lambda>(key, value). str_includes lowerStatus key) statusMap of
                       Some (key, value) \<Rightarrow> Some (StatusString value)
                     | None \<Rightarrow> None))"

text \<open>The keyword table as the specification lists it.\<close>

definition spec_keyword_table :: "(string \<times> string) list" where
  "spec_keyword_table =
     [(''available'', ''available''),
      (''dnd'', ''dnd''), (''busy'', ''dnd''), (''do not disturb'', ''dnd''), (''meeting'', ''dnd''),
      (''ringing'', ''ringing''),
      (''on call'', ''onCall''), (''on the phone'', ''onCall''), (''talking'', ''onCall''),
      (''away'', ''away''), (''idle'', ''away''), (''lunch'', ''away''),
      (''offline'', ''offline''), (''unavailable'', ''offline''), (''logged out'', ''offline'')]"


section \<open>Numbers\<close>

text \<open>
  A JavaScript number that arises here: an integer that a double holds exactly, an
  infinity, or \<open>NaN\<close>.  Negative zero is not distinguished from zero.
\<close>

datatype js_number = Num int | PosInfinity | NegInfinity | NaN

text \<open>The number of bits of a positive integer.\<close>

function bitlen :: "int \<Rightarrow> nat" where
  "bitlen n = (if n \<le> 0 then 0 else Suc (bitlen (n div 2)))"
  by pat_completeness auto
termination
  by (relation "measure nat") auto

declare bitlen.simps [simp del]

text \<open>
  Rounding of a magnitude to the nearest double, ties to even: up to 53 bits are kept;
  \<open>None\<close> is the overflow beyond the largest double.
\<close>

definition roundMagnitude :: "int \<Rightarrow> int option" where
  "roundMagnitude m =
     (if bitlen m \<le> 53 then Some m
      else
        let e = bitlen m - 53;
            q = m div 2 ^ e;
            r = m mod 2 ^ e;
            q' = (if 2 * r > 2 ^ e \<or> (2 * r = 2 ^ e \<and> odd q) then q + 1 else q);
            v = q' * 2 ^ e
        in if v \<ge> 2 ^ 1024 then None else Some v)"

definition toDouble :: "int \<Rightarrow> js_number" where
  "toDouble x =
     (case roundMagnitude \<bar>x\<bar> of
        None \<Rightarrow> if x < 0 then NegInfinity else PosInfinity
      | Some v \<Rightarrow> Num (if x < 0 then - v else v))"

text \<open>The operator \<open>+\<close> on numbers: the exact sum, rounded.\<close>

fun jsAdd :: "js_number \<Rightarrow> js_number \<Rightarrow> js_number" where
  "jsAdd NaN y = NaN"
| "jsAdd x NaN = NaN"
| "jsAdd PosInfinity NegInfinity = NaN"
| "jsAdd NegInfinity PosInfinity = NaN"
| "jsAdd PosInfinity y = PosInfinity"
| "jsAdd x PosInfinity = PosInfinity"
| "jsAdd NegInfinity y = NegInfinity"
| "jsAdd x NegInfinity = NegInfinity"
| "jsAdd (Num a) (Num b) = toDouble (a + b)"

text \<open>\<open>x || 0\<close> for a number \<open>x\<close>: \<open>NaN\<close> and zero are falsy.\<close>

fun orZero :: "js_number \<Rightarrow> js_number" where
  "orZero NaN = Num 0"
| "orZero x = x"

text \<open>\<open>Math.max(0, x)\<close> and \<open>Math.min(255, x)\<close>.\<close>

fun mathMax0 :: "js_number \<Rightarrow> js_number" where
  "mathMax0 (Num n) = Num (max 0 n)"
| "mathMax0 PosInfinity = PosInfinity"
| "mathMax0 NegInfinity = Num 0"
| "mathMax0 NaN = NaN"

fun mathMin255 :: "js_number \<Rightarrow> js_number" where
  "mathMin255 (Num n) = Num (min 255 n)"
| "mathMin255 PosInfinity = Num 255"
| "mathMin255 NegInfinity = NegInfinity"
| "mathMin255 NaN = NaN"

definition isDigit :: "char \<Rightarrow> bool" where
  "isDigit c = (c \<in> set ''0123456789'')"

definition digitsValue :: "string \<Rightarrow> int" where
  "digitsValue ds = foldl (\<lambda>acc c. 10 * acc + (int (of_char c) - 48)) 0 ds"

definition isHexDigit :: "char \<Rightarrow> bool" where
  "isHexDigit c = (c \<in> set ''0123456789abcdefABCDEF'')"

definition hexDigitValue :: "char \<Rightarrow> int" where
  "hexDigitValue c =
     (let n = int (of_char c)
      in if n \<le> 57 then n - 48 else if n \<le> 70 then n - 55 else n - 87)"

definition hexValue :: "string \<Rightarrow> int" where
  "hexValue ds = foldl (\<lambda>acc c. 16 * acc + hexDigitValue c) 0 ds"

text \<open>
  \<open>parseInt(s, 10)\<close>: leading white space, an optional sign, then the longest run of
  decimal digits; \<open>NaN\<close> without a digit.  The value of the digits is rounded to a
  double (an engine may read the digits after the twentieth as zeros; here every digit
  counts).
\<close>

definition parseInt10 :: "string \<Rightarrow> js_number" where
  "parseInt10 s =
     (let t = dropWhile isWhiteSpace s;
          negative = (t \<noteq> [] \<and> hd t = CHR ''-'');
          u = (if t \<noteq> [] \<and> (hd t = CHR ''-'' \<or> hd t = CHR ''+'') then tl t else t);
          ds = takeWhile isDigit u
      in if ds = [] then NaN
         else toDouble (if negative then - digitsValue ds else digitsValue ds))"

text \<open>
  \<open>parseInt(s)\<close> without a radix: as above, but digits after a prefix \<open>0x\<close> or \<open>0X\<close>
  are read in base 16.
\<close>

definition parseInt :: "string \<Rightarrow> js_number" where
  "parseInt s =
     (let t = dropWhile isWhiteSpace s;
          negative = (t \<noteq> [] \<and> hd t = CHR ''-'');
          u = (if t \<noteq> [] \<and> (hd t = CHR ''-'' \<or> hd t = CHR ''+'') then tl t else t);
          hex = (startsWith u ''0x'' \<or> startsWith u ''0X'');
          ds = (if hex then takeWhile isHexDigit (drop 2 u) else takeWhile isDigit u);
          v = (if hex then hexValue ds else digitsValue ds)
      in if ds = [] then NaN else toDouble (if negative then - v else v))"

text \<open>
  The string of an integer-valued number below \<open>10^21\<close> in magnitude (\<open>String(n)\<close>):
  its decimal digits, after a minus sign when it is negative.
\<close>

function showNat :: "int \<Rightarrow> string" where
  "showNat n =
     (if n < 10 then [char_of (48 + nat n)]
      else showNat (n div 10) @ [char_of (48 + nat (n mod 10))])"
  by pat_completeness auto
termination
  by (relation "measure nat") auto

declare showNat.simps [simp del]

definition numberToString :: "int \<Rightarrow> string" where
  "numberToString n = (if n < 0 then CHR ''-'' # showNat (- n) else showNat n)"

section \<open>LED device adapter (\<open>wled-controller.js\<close>)\<close>

text \<open>
  The adapter's configuration, read from the environment: the device address (absent
  when the variable is unset), the brightness and the transition time in milliseconds.
\<close>

record wled_config =
  ipAddress :: "string option"
  brightness :: int
  transition :: int

text \<open>
  The argument of \<open>updateWLED\<close>.  \<open>NotAnObject\<close> stands for every value that fails the
  check \<open>!color || typeof color !== 'object'\<close> (\<open>null\<close>, \<open>undefined\<close>, a primitive, a
  function).  An object is given by its \<open>r\<close>, \<open>g\<close>, \<open>b\<close> properties, and each property
  by what \<open>parseInt\<close> does with it first, the conversion to a string: \<open>255\<close> is
  \<open>Text ''255''\<close>, a missing property is \<open>Text ''undefined''\<close>, the number \<open>1e21\<close> is
  \<open>Text ''1e+21''\<close>; \<open>Unconvertible\<close> is a property whose conversion throws (a symbol, an
  object whose \<open>toString\<close> throws).
\<close>

datatype color_property = Text string | Unconvertible

datatype color_arg = NotAnObject | ColorObject color_property color_property color_property

record wled_segment =
  col :: "(js_number \<times> js_number \<times> js_number) list"
  fx :: int
  sx :: int
  ix :: int

text \<open>The JSON body of the command; \<open>transition\<close> is the quotient in seconds.\<close>

record wled_payload =
  on :: bool
  bri :: int
  transition_s :: rat
  seg :: "wled_segment list"

record http_request =
  url :: string
  body :: wled_payload

text \<open>
  What \<open>axios.post\<close> does with a request: it resolves, or it rejects on a response
  outside 2xx or on a network failure.  The device is a parameter of the model.
\<close>

datatype http_outcome = HttpOk | HttpStatusError nat | NetworkError

type_synonym device = "http_request \<Rightarrow> http_outcome"

datatype js_error = Error string | AxiosError http_outcome

text \<open>
  \<open>Math.min(255, Math.max(0, parseInt(v) || 0))\<close> for a property that converts to the
  string \<open>v\<close>.
\<close>

definition colorByte :: "string \<Rightarrow> js_number" where
  "colorByte v = mathMin255 (mathMax0 (orZero (parseInt v)))"

text \<open>The same for a property: \<open>None\<close> when the conversion throws.\<close>

fun readByte :: "color_property \<Rightarrow> js_number option" where
  "readByte (Text v) = Some (colorByte v)"
| "readByte Unconvertible = None"

text \<open>
  The body of the outer \<open>try\<close> of \<open>updateWLED\<close>: the value it returns or the error it
  throws, with the HTTP requests it has sent.  An unset or empty address is falsy.
\<close>

definition updateWLED_try ::
  "wled_config \<Rightarrow> device \<Rightarrow> color_arg \<Rightarrow> (js_error + bool) \<times> http_request list" where
  "updateWLED_try cfg dev color =
     (case ipAddress cfg of
        None \<Rightarrow> (Inl (Error ''WLED IP address is not configured''), [])
      | Some ip \<Rightarrow>
          if ip = [] then (Inl (Error ''WLED IP address is not configured''), [])
          else
            (case color of
               NotAnObject \<Rightarrow> (Inl (Error ''Invalid color object provided''), [])
             | ColorObject cr cg cb \<Rightarrow>
                 (case (readByte cr, readByte cg, readByte cb) of
                    (Some r, Some g, Some b) \<Rightarrow>
                      let payload = \<lparr>on = True, bri = brightness cfg,
                                     transition_s = of_int (transition cfg) / 1000,
                                     seg = [\<lparr>col = [(r, g, b)], fx = 0, sx = 128, ix = 128\<rparr>]\<rparr>;
                          request = \<lparr>url = ''http://'' @ ip @ ''/json'', body = payload\<rparr>
                      in (case dev request of
                            HttpOk \<Rightarrow> (Inr True, [request])
                          | failure \<Rightarrow> (Inl (AxiosError failure), [request]))
                  | _ \<Rightarrow> (Inl (Error ''Cannot convert a value to a string''), []))))"

text \<open>
  \<open>updateWLED\<close>: the outer \<open>catch\<close> turns every error into the value \<open>false\<close>.  The
  result is still typed as error or value, so that "never throws" is a statement.
\<close>

definition updateWLED ::
  "wled_config \<Rightarrow> device \<Rightarrow> color_arg \<Rightarrow> (js_error + bool) \<times> http_request list" where
  "updateWLED cfg dev color =
     (case updateWLED_try cfg dev color of
        (Inl error, requests) \<Rightarrow> (Inr False, requests)
      | (Inr success, requests) \<Rightarrow> (Inr success, requests))"

text \<open>
  The configuration of the start script, which sets \<open>WLED_IP_ADDRESS\<close>,
  \<open>WLED_BRIGHTNESS\<close> and \<open>WLED_TRANSITION\<close> before loading the application.
\<close>

definition start_config :: wled_config where
  "start_config = \<lparr>ipAddress = Some ''192.168.111.50'', brightness = 128, transition = 1000\<rparr>"

section \<open>Application state and broadcast (\<open>app.js\<close>)\<close>

text \<open>One roster entry, as the scraper builds it.\<close>

record agent =
  agent_id :: string
  agent_extension :: string
  agent_name :: string
  agent_status :: string
  agent_queues :: string
  agent_color :: string

text \<open>
  Call statistics.  Counters are numbers; a timestamp is a number of milliseconds;
  the three duration fields and \<open>error\<close> are present only on some paths.
\<close>

record callStats =
  waitingCalls :: js_number
  activeCalls :: js_number
  totalCalls :: js_number
  servicedCalls :: js_number
  abandonedCalls :: js_number
  longestWaiting :: "string option"
  averageWaiting :: "string option"
  averageTalking :: "string option"
  lastUpdated :: "nat option"
  stats_source :: string
  stats_error :: "string option"

record status_result =
  result_status :: string
  result_source :: string

text \<open>
  The \<open>agentStatuses\<close> field of a scrape result: missing (\<open>undefined\<close>), \<open>null\<close>, or
  an array (truthy also when empty).
\<close>

datatype agents_result = AgentsUndefined | AgentsNull | Agents "agent list"

record scrape_result =
  sr_status :: "status_result option"
  sr_callStats :: "callStats option"
  sr_agentStatuses :: agents_result
  sr_debugInfo :: "string option"

record client =
  client_id :: nat
  readyOpen :: bool

datatype message =
    StatusUpdate string bool callStats "agent list" "agent list" "string option"
  | CallStatsMessage callStats
  | TeamStatusMessage "agent list" "nat option"
  | DebugMessage string
  | WledMessage bool "string option"
  | StatusConfirmation bool string

text \<open>
  The module-level variables of \<open>app.js\<close>, the connected clients, and the two traces
  of what the process has emitted: messages put on client sockets and HTTP requests
  sent to the LED device (oldest first).
\<close>

record app_state =
  currentStatus :: string
  isMonitoring :: bool
  latestCallStats :: callStats
  teamStatus :: "agent list"
  lastTeamStatusUpdate :: "nat option"
  latestAgentStatuses :: "agent list"
  latestDebugInfo :: "string option"
  manualStatusOverride :: bool
  manualStatusTimestamp :: nat
  clients :: "client list"
  sent :: "(nat \<times> message) list"
  wledRequests :: "http_request list"

definition initial_state :: app_state where
  "initial_state =
     \<lparr>currentStatus = ''offline'', isMonitoring = True,
      latestCallStats =
        \<lparr>waitingCalls = Num 0, activeCalls = Num 0, totalCalls = Num 0, servicedCalls = Num 0,
         abandonedCalls = Num 0, longestWaiting = None, averageWaiting = None,
         averageTalking = None, lastUpdated = None, stats_source = ''initial'',
         stats_error = None\<rparr>,
      teamStatus = [], lastTeamStatusUpdate = None, latestAgentStatuses = [],
      latestDebugInfo = None, manualStatusOverride = False, manualStatusTimestamp = 0,
      clients = [], sent = [], wledRequests = []\<rparr>"

text \<open>\<open>config.wled.statusColors\<close>: the own properties of the object literal.\<close>

definition statusColors :: "(string \<times> int \<times> int \<times> int) list" where
  "statusColors =
     [(''available'', 0, 255, 0), (''ringing'', 255, 255, 0), (''onCall'', 255, 0, 0),
      (''dnd'', 128, 0, 128), (''away'', 255, 165, 0), (''offline'', 0, 0, 255)]"

text \<open>
  The value of \<open>config.wled.statusColors[status]\<close>: an own colour, a member inherited
  from \<open>Object.prototype\<close> (a function, or the prototype object for \<open>__proto__\<close>), or
  \<open>undefined\<close>.  Only \<open>undefined\<close> is falsy.
\<close>

datatype property_value =
  Undefined | OwnColor int int int | InheritedFunction | InheritedPrototype

definition statusColors_get :: "string \<Rightarrow> property_value" where
  "statusColors_get status =
     (case map_of statusColors status of
        Some (r, g, b) \<Rightarrow> OwnColor r g b
      | None \<Rightarrow>
          if status = ''__proto__'' then InheritedPrototype
          else if status \<in> set objectPrototypeFunctions then InheritedFunction
          else Undefined)"

text \<open>
  How \<open>updateWLED\<close> sees such a value: a function is not an object, and the prototype
  object has no \<open>r\<close>, \<open>g\<close>, \<open>b\<close>.
\<close>

fun color_arg_of :: "property_value \<Rightarrow> color_arg" where
  "color_arg_of Undefined = NotAnObject"
| "color_arg_of (OwnColor r g b) =
     ColorObject (Text (numberToString r)) (Text (numberToString g)) (Text (numberToString b))"
| "color_arg_of InheritedFunction = NotAnObject"
| "color_arg_of InheritedPrototype =
     ColorObject (Text ''undefined'') (Text ''undefined'') (Text ''undefined'')"

definition getColorForStatus :: "string \<Rightarrow> string" where
  "getColorForStatus status =
     (if status = ''available'' then ''green''
      else if status = ''ringing'' then ''yellow''
      else if status = ''onCall'' then ''red''
      else if status = ''dnd'' then ''purple''
      else if status = ''away'' then ''orange''
      else if status = ''offline'' then ''blue''
      else ''gray'')"

text \<open>\<open>clients.forEach\<close>: every client whose socket is open receives the message.\<close>

definition sendToAll :: "message \<Rightarrow> app_state \<Rightarrow> app_state" where
  "sendToAll m s =
     s\<lparr>sent := sent s @ map (\<lambda>c. (client_id c, m)) (filter readyOpen (clients s))\<rparr>"

definition statusMessage :: "wled_config \<Rightarrow> app_state \<Rightarrow> message" where
  "statusMessage cfg s =
     StatusUpdate (currentStatus s) (isMonitoring s) (latestCallStats s) (latestAgentStatuses s)
       (map (\<lambda>member. member\<lparr>agent_color := getColorForStatus (agent_status member)\<rparr>)
          (teamStatus s))
       (ipAddress cfg)"

definition broadcastStatus :: "wled_config \<Rightarrow> app_state \<Rightarrow> app_state" where
  "broadcastStatus cfg s = sendToAll (statusMessage cfg s) s"

definition broadcastDebugInfo :: "string \<Rightarrow> app_state \<Rightarrow> app_state" where
  "broadcastDebugInfo debugInfo s =
     sendToAll (DebugMessage debugInfo) (s\<lparr>latestDebugInfo := Some debugInfo\<rparr>)"

definition broadcastCallStats :: "callStats \<Rightarrow> app_state \<Rightarrow> app_state" where
  "broadcastCallStats stats s =
     sendToAll (CallStatsMessage stats) (s\<lparr>latestCallStats := stats\<rparr>)"

definition broadcastWLEDStatus :: "bool \<Rightarrow> string option \<Rightarrow> app_state \<Rightarrow> app_state" where
  "broadcastWLEDStatus success errorMessage s = sendToAll (WledMessage success errorMessage) s"

definition broadcastTeamStatus :: "app_state \<Rightarrow> app_state" where
  "broadcastTeamStatus s =
     (if clients s = [] then s
      else if teamStatus s = [] then s
      else sendToAll (TeamStatusMessage (teamStatus s) (lastTeamStatusUpdate s)) s)"

fun error_message :: "js_error \<Rightarrow> string" where
  "error_message (Error m) = m"
| "error_message (AxiosError outcome) = ''Request failed''"

text \<open>
  \<open>updateWLEDWithStatus\<close>.  The result is \<open>Inr None\<close> for \<open>undefined\<close>, \<open>Inr (Some b)\<close>
  for the boolean of \<open>updateWLED\<close>, \<open>Inl e\<close> for a rethrown error.  The continuation of
  the promise is run at the call: its message is logged at that point of the trace.
\<close>

definition updateWLEDWithStatus ::
  "wled_config \<Rightarrow> device \<Rightarrow> string \<Rightarrow> app_state \<Rightarrow> (js_error + bool option) \<times> app_state" where
  "updateWLEDWithStatus cfg dev status s =
     (case statusColors_get status of
        Undefined \<Rightarrow> (Inr None, s)
      | color \<Rightarrow>
          (case updateWLED cfg dev (color_arg_of color) of
             (Inr success, requests) \<Rightarrow>
               (Inr (Some success),
                broadcastWLEDStatus success None (s\<lparr>wledRequests := wledRequests s @ requests\<rparr>))
           | (Inl error, requests) \<Rightarrow>
               (Inl error,
                broadcastWLEDStatus False (Some (error_message error))
                  (s\<lparr>wledRequests := wledRequests s @ requests\<rparr>))))"

text \<open>
  \<open>handleStatusChange(error, result)\<close>, the callback of the scraper; \<open>now\<close> is the
  clock read by \<open>new Date()\<close>.
\<close>

definition handleStatusChange ::
  "wled_config \<Rightarrow> device \<Rightarrow> nat \<Rightarrow> js_error option \<Rightarrow> scrape_result option \<Rightarrow>
     app_state \<Rightarrow> app_state" where
  "handleStatusChange cfg dev now error result s =
     (let statusResult = (case result of None \<Rightarrow> None | Some r \<Rightarrow> sr_status r);
          callStatsResult = (case result of None \<Rightarrow> None | Some r \<Rightarrow> sr_callStats r);
          agentStatusesResult =
            (case result of None \<Rightarrow> AgentsUndefined | Some r \<Rightarrow> sr_agentStatuses r);
          debugInfo = (case result of None \<Rightarrow> None | Some r \<Rightarrow> sr_debugInfo r)
      in if error \<noteq> None then s
         else
           let s1 = (case debugInfo of
                       Some d \<Rightarrow> broadcastDebugInfo d (s\<lparr>latestDebugInfo := Some d\<rparr>)
                     | None \<Rightarrow> s);
               s2 = (case callStatsResult of
                       Some stats \<Rightarrow> broadcastCallStats stats (s1\<lparr>latestCallStats := stats\<rparr>)
                     | None \<Rightarrow> s1);
               s3 = (case agentStatusesResult of
                       Agents roster \<Rightarrow>
                         broadcastTeamStatus
                           (s2\<lparr>latestAgentStatuses := roster, teamStatus := roster,
                               lastTeamStatusUpdate := Some now\<rparr>)
                     | AgentsNull \<Rightarrow> s2
                     | AgentsUndefined \<Rightarrow> s2)
           in (case statusResult of
                 Some st \<Rightarrow>
                   if isMonitoring s3 \<and> result_status st \<noteq> currentStatus s3
                   then snd (updateWLEDWithStatus cfg dev (result_status st)
                               (broadcastStatus cfg (s3\<lparr>currentStatus := result_status st\<rparr>)))
                   else s3
               | None \<Rightarrow> s3))"

text \<open>
  \<open>updateWLEDWithStatus\<close> in two steps, for a caller that goes on after the call.  What
  runs at the call: the colour lookup and \<open>updateWLED\<close> up to its request; the outcome
  of the promise stays pending (\<open>None\<close> when there is no colour).  What runs once the
  promise settles: the broadcast of the outcome.
\<close>

definition startWLEDUpdate ::
  "wled_config \<Rightarrow> device \<Rightarrow> string \<Rightarrow> app_state \<Rightarrow> (js_error + bool) option \<times> app_state" where
  "startWLEDUpdate cfg dev status s =
     (case statusColors_get status of
        Undefined \<Rightarrow> (None, s)
      | color \<Rightarrow>
          (case updateWLED cfg dev (color_arg_of color) of
             (outcome, requests) \<Rightarrow>
               (Some outcome, s\<lparr>wledRequests := wledRequests s @ requests\<rparr>)))"

definition finishWLEDUpdate ::
  "(js_error + bool) option \<Rightarrow> app_state \<Rightarrow> (js_error + bool option) \<times> app_state" where
  "finishWLEDUpdate pending s =
     (case pending of
        None \<Rightarrow> (Inr None, s)
      | Some (Inr success) \<Rightarrow> (Inr (Some success), broadcastWLEDStatus success None s)
      | Some (Inl error) \<Rightarrow>
          (Inl error, broadcastWLEDStatus False (Some (error_message error)) s))"

text \<open>
  The handler of \<open>POST /api/status\<close>.  \<open>reqBody\<close> is \<open>req.body\<close>: \<open>None\<close> when it is
  \<open>undefined\<close>, in which case the destructuring \<open>const { status, monitoring } = req.body\<close>
  throws before anything is changed.  Otherwise the handler sets the status, broadcasts,
  starts the LED update, handles the monitoring flag and answers; the LED outcome is
  broadcast after that.  A missing or empty \<open>status\<close> is falsy.
\<close>

type_synonym status_body = "string option \<times> bool option"

definition postStatus ::
  "wled_config \<Rightarrow> device \<Rightarrow> status_body option \<Rightarrow> app_state \<Rightarrow> (js_error + bool) \<times> app_state" where
  "postStatus cfg dev reqBody s =
     (case reqBody of
        None \<Rightarrow>
          (Inl (Error ''Cannot destructure property status of req.body as it is undefined''), s)
      | Some (status, monitoring) \<Rightarrow>
          let (pending, s1) =
                (case status of
                   None \<Rightarrow> (None, s)
                 | Some st \<Rightarrow>
                     if st = [] then (None, s)
                     else startWLEDUpdate cfg dev st
                            (broadcastStatus cfg (s\<lparr>currentStatus := st\<rparr>)));
              s2 = (case monitoring of
                      None \<Rightarrow> s1
                    | Some m \<Rightarrow> broadcastStatus cfg (s1\<lparr>isMonitoring := m\<rparr>))
          in (Inr True, snd (finishWLEDUpdate pending s2)))"

text \<open>
  \<open>req.body\<close> as Express provides it for a request that carries the JSON body \<open>sentBody\<close>:
  the application mounts no body-parsing middleware, so it is \<open>undefined\<close>.
\<close>

definition requestBody :: "status_body \<Rightarrow> status_body option" where
  "requestBody sentBody = None"

definition apiStatus ::
  "wled_config \<Rightarrow> device \<Rightarrow> status_body \<Rightarrow> app_state \<Rightarrow> (js_error + bool) \<times> app_state" where
  "apiStatus cfg dev sentBody s = postStatus cfg dev (requestBody sentBody) s"

text \<open>
  The WebSocket messages that write the status variables: \<open>{type: 'status', status,
  monitoring}\<close> and \<open>{type: 'clearManualOverride'}\<close> (the confirmation of the latter goes
  to the sending client \<open>sender\<close> only).
\<close>

datatype ws_command = StatusCommand "string option" "bool option" | ClearManualOverride

fun onMessage :: "wled_config \<Rightarrow> device \<Rightarrow> nat \<Rightarrow> ws_command \<Rightarrow> app_state \<Rightarrow> app_state" where
  "onMessage cfg dev sender (StatusCommand status monitoring) s =
     (let s1 = (case status of
                  None \<Rightarrow> s
                | Some st \<Rightarrow> if st = [] then s else s\<lparr>currentStatus := st\<rparr>);
          s2 = (case monitoring of None \<Rightarrow> s1 | Some m \<Rightarrow> s1\<lparr>isMonitoring := m\<rparr>);
          s3 = broadcastStatus cfg s2
      in case status of
           None \<Rightarrow> s3
         | Some st \<Rightarrow> if st = [] then s3 else snd (updateWLEDWithStatus cfg dev st s3))"
| "onMessage cfg dev sender ClearManualOverride s =
     (s\<lparr>manualStatusOverride := False,
        sent := sent s @ [(sender, StatusConfirmation True ''Manual override cleared'')]\<rparr>)"

text \<open>Recognisers for the messages of the trace.\<close>

fun isStatusUpdate :: "message \<Rightarrow> bool" where
  "isStatusUpdate (StatusUpdate st mon stats agents team ip) = True"
| "isStatusUpdate m = False"

fun isWledMessage :: "message \<Rightarrow> bool" where
  "isWledMessage (WledMessage success err) = True"
| "isWledMessage m = False"

section \<open>Presence scraper (3CX web client)\<close>

subsection \<open>Screenshots\<close>

record screenshots_config =
  enabled :: bool
  minInterval :: int
  maxPerSession :: int

text \<open>
  \<open>config.screenshots\<close> when none of \<open>ENABLE_SCREENSHOTS\<close>, \<open>SCREENSHOT_MIN_INTERVAL\<close>
  and \<open>SCREENSHOT_MAX_PER_SESSION\<close> is set.
\<close>

definition default_screenshots :: screenshots_config where
  "default_screenshots = \<lparr>enabled = False, minInterval = 60000, maxPerSession = 20\<rparr>"

text \<open>The module variables \<open>lastScreenshotTime\<close> and \<open>screenshotCount\<close>.\<close>

record screenshot_state =
  lastScreenshotTime :: int
  screenshotCount :: int

datatype mkdir_outcome = MkdirOk | MkdirExists | MkdirFails

text \<open>
  What one call of \<open>takeScreenshot\<close> meets: the clock (\<open>Date.now()\<close>), whether \<open>page\<close>
  is set, the outcome of creating the directory, whether \<open>page.screenshot\<close> succeeds,
  the directory and the ISO time of the file name.
\<close>

record screenshot_env =
  clock :: int
  pageSet :: bool
  mkdirResult :: mkdir_outcome
  screenshotSucceeds :: bool
  screenshotsDir :: string
  isoTime :: string

definition screenshotPath :: "screenshot_env \<Rightarrow> string \<Rightarrow> string" where
  "screenshotPath env prefix =
     screenshotsDir env @ ''/'' @ prefix @ ''-screenshot-'' @
       map (\<lambda>c. if c = CHR '':'' then CHR ''-'' else c) (isoTime env) @ ''.png''"

text \<open>
  \<open>takeScreenshot(prefix, force)\<close>: the path or \<open>null\<close>, and the counters afterwards.
  Every error is caught inside the function.
\<close>

definition takeScreenshot ::
  "screenshots_config \<Rightarrow> screenshot_env \<Rightarrow> string \<Rightarrow> bool \<Rightarrow> screenshot_state \<Rightarrow>
     string option \<times> screenshot_state" where
  "takeScreenshot cfg env prefix force st =
     (if \<not> enabled cfg \<and> \<not> force then (None, st)
      else if screenshotCount st \<ge> maxPerSession cfg \<and> \<not> force then (None, st)
      else
        let now = clock env;
            timeSinceLastScreenshot = now - lastScreenshotTime st
        in if timeSinceLastScreenshot < minInterval cfg \<and> \<not> force then (None, st)
           else
             let st' = st\<lparr>lastScreenshotTime := now, screenshotCount := screenshotCount st + 1\<rparr>
             in if \<not> pageSet env then (None, st')
                else if mkdirResult env = MkdirFails then (None, st')
                else if \<not> screenshotSucceeds env then (None, st')
                else (Some (screenshotPath env prefix), st'))"

subsection \<open>The page, as the extraction queries read it\<close>

text \<open>
  The \<open>queue-stat\<close> element: the cell texts of its first \<open>.qst-l-td\<close> row (headers) and
  of its first \<open>.qst-d-td\<close> row (values), each row possibly missing.
\<close>

record queue_stat =
  headerRow :: "string list option"
  dataRow :: "string list option"

text \<open>
  One \<open>div[data-qa="agent-item"]\<close>: the \<open>number\<close> element with its text and the
  \<open>className\<close> of the status indicator found in it, the \<open>name\<close> element with its
  \<open>title\<close> attribute and text, and the text of the \<open>queues\<close> element.
\<close>

record number_el =
  number_text :: string
  statusIndicator :: "string option"

record name_el =
  name_title :: "string option"
  name_text :: string

record agent_item =
  numberEl :: "number_el option"
  nameEl :: "name_el option"
  queuesEl :: "string option"

record dom =
  queueStatElement :: "queue_stat option"
  agentContainer :: "agent_item list option"

text \<open>
  The variable \<open>page\<close>: unset, a closed page, or an open page with its document; the
  flag says whether \<open>page.evaluate\<close> resolves (it rejects, for instance, while the page
  navigates).
\<close>

datatype page_state = PageNull | PageClosed | PageOpen bool dom

definition pageUnavailable :: "bool \<Rightarrow> page_state \<Rightarrow> bool" where
  "pageUnavailable browserSet page =
     (\<not> browserSet \<or> page = PageNull \<or> page = PageClosed)"

subsection \<open>Call statistics\<close>

text \<open>\<open>parseInt(s, 10) || 0\<close>.\<close>

definition parseCount :: "string \<Rightarrow> js_number" where
  "parseCount s = orZero (parseInt10 s)"

text \<open>
  The object \<open>statsMap\<close>: header text (trimmed, lower-cased) to value text (trimmed),
  for the cells present in both rows; a later column overwrites an earlier one of the
  same header.
\<close>

definition statsMap_of :: "string list \<Rightarrow> string list \<Rightarrow> (string \<times> string) list" where
  "statsMap_of headers cells = zip (map (\<lambda>h. toLowerCase (trim h)) headers) (map trim cells)"

definition statsMap_get :: "(string \<times> string) list \<Rightarrow> string \<Rightarrow> string option" where
  "statsMap_get m key = map_of (rev m) key"

definition zeroStats :: "nat \<Rightarrow> string \<Rightarrow> callStats" where
  "zeroStats now src =
     \<lparr>waitingCalls = Num 0, activeCalls = Num 0, totalCalls = Num 0, servicedCalls = Num 0,
      abandonedCalls = Num 0, longestWaiting = None, averageWaiting = None,
      averageTalking = None, lastUpdated = Some now, stats_source = src,
      stats_error = None\<rparr>"

text \<open>
  The function evaluated in the page: the statistics read from the \<open>queue-stat\<close>
  element, or \<open>None\<close> when nothing was found (\<open>foundStats\<close> false).
\<close>

definition extractQueueStats :: "nat \<Rightarrow> dom \<Rightarrow> callStats option" where
  "extractQueueStats now d =
     (case queueStatElement d of
        None \<Rightarrow> None
      | Some q \<Rightarrow>
          (case (headerRow q, dataRow q) of
             (Some headers, Some cells) \<Rightarrow>
               let m = statsMap_of headers cells;
                   waiting = statsMap_get m ''waiting calls'';
                   serviced = statsMap_get m ''serviced calls'';
                   abandoned = statsMap_get m ''abandoned calls'';
                   foundStats = (waiting \<noteq> None \<or> serviced \<noteq> None \<or> abandoned \<noteq> None);
                   w = (case waiting of None \<Rightarrow> Num 0 | Some v \<Rightarrow> parseCount v);
                   sv = (case serviced of None \<Rightarrow> Num 0 | Some v \<Rightarrow> parseCount v);
                   ab = (case abandoned of None \<Rightarrow> Num 0 | Some v \<Rightarrow> parseCount v)
               in if foundStats
                  then Some \<lparr>waitingCalls = w, activeCalls = Num 0,
                             totalCalls = jsAdd (jsAdd sv ab) w,
                             servicedCalls = sv, abandonedCalls = ab,
                             longestWaiting = statsMap_get m ''longest waiting'',
                             averageWaiting = statsMap_get m ''average waiting'',
                             averageTalking = statsMap_get m ''average talking'',
                             lastUpdated = Some now, stats_source = ''queue-stat-element'',
                             stats_error = None\<rparr>
                  else None
           | _ \<Rightarrow> None))"

text \<open>
  \<open>fetchCallStats\<close>: \<open>None\<close> is \<open>null\<close>, returned when the extraction throws.  The
  screenshot taken first never throws and does not enter the result.
\<close>

definition fetchCallStats :: "bool \<Rightarrow> page_state \<Rightarrow> nat \<Rightarrow> callStats option" where
  "fetchCallStats browserSet page now =
     (if pageUnavailable browserSet page then Some (zeroStats now ''default'')
      else
        case page of
          PageOpen evaluates d \<Rightarrow>
            if \<not> evaluates then None
            else (case extractQueueStats now d of
                    Some stats \<Rightarrow> Some stats
                  | None \<Rightarrow> Some (zeroStats now ''web''))
        | _ \<Rightarrow> Some (zeroStats now ''default''))"

text \<open>An open page that shows a statistics table with the given header and data cells.\<close>

definition statsTable :: "string list \<Rightarrow> string list \<Rightarrow> page_state" where
  "statsTable headers cells =
     PageOpen True
       \<lparr>queueStatElement = Some \<lparr>headerRow = Some headers, dataRow = Some cells\<rparr>,
        agentContainer = None\<rparr>"

subsection \<open>Roster\<close>

text \<open>\<open>s.split(' ')\<close>.\<close>

fun splitSpaces :: "string \<Rightarrow> string list" where
  "splitSpaces [] = [[]]"
| "splitSpaces (c # cs) =
     (if c = CHR '' '' then [] # splitSpaces cs
      else (case splitSpaces cs of w # ws \<Rightarrow> (c # w) # ws | [] \<Rightarrow> [[c]]))"

text \<open>\<open>text.match(/\d+/)\<close>: the first run of decimal digits, if any.\<close>

definition firstDigits :: "string \<Rightarrow> string option" where
  "firstDigits s =
     (let ds = takeWhile isDigit (dropWhile (\<lambda>c. \<not> isDigit c) s)
      in if ds = [] then None else Some ds)"

definition knownStatuses :: "string list" where
  "knownStatuses =
     [''available'', ''away'', ''dnd'', ''lunch'', ''business-trip'', ''oncall'', ''on-call'',
      ''onCall'', ''ringing'', ''off'']"

fun statusFromClasses :: "string list \<Rightarrow> string" where
  "statusFromClasses [] = ''offline''"
| "statusFromClasses (className # rest) =
     (case find (\<lambda>s. toLowerCase className = toLowerCase s) knownStatuses of
        Some matchedStatus \<Rightarrow>
          if matchedStatus = ''off'' then ''offline''
          else if matchedStatus = ''on-call'' \<or> matchedStatus = ''oncall'' then ''onCall''
          else matchedStatus
      | None \<Rightarrow> statusFromClasses rest)"

definition rosterColor :: "string \<Rightarrow> string" where
  "rosterColor status =
     (if status = ''available'' then ''green''
      else if status = ''onCall'' then ''red''
      else if status = ''ringing'' then ''yellow''
      else if status = ''dnd'' then ''purple''
      else if status = ''away'' then ''orange''
      else ''gray'')"

text \<open>The roster entry of one item, if the item yields one.\<close>

definition agentOfItem :: "agent_item \<Rightarrow> agent option" where
  "agentOfItem item =
     (case (numberEl item, nameEl item) of
        (Some number, Some nm) \<Rightarrow>
          let extension = firstDigits (trim (number_text number));
              name = (case name_title nm of
                        Some t \<Rightarrow> if t \<noteq> [] then t else trim (name_text nm)
                      | None \<Rightarrow> trim (name_text nm));
              queues = (case queuesEl item of Some q \<Rightarrow> trim q | None \<Rightarrow> []);
              status = (case statusIndicator number of
                          Some className \<Rightarrow> statusFromClasses (splitSpaces className)
                        | None \<Rightarrow> ''offline'')
          in (case extension of
                Some ext \<Rightarrow>
                  if name \<noteq> []
                  then Some \<lparr>agent_id = ext, agent_extension = ext, agent_name = name,
                             agent_status = status, agent_queues = queues,
                             agent_color = rosterColor status\<rparr>
                  else None
              | None \<Rightarrow> None)
      | _ \<Rightarrow> None)"

text \<open>
  \<open>fetchAllAgentStatuses\<close>: \<open>None\<close> is \<open>null\<close>.  An error of the extraction is caught
  and answered with \<open>null\<close> as well.
\<close>

definition fetchAllAgentStatuses :: "bool \<Rightarrow> page_state \<Rightarrow> agent list option" where
  "fetchAllAgentStatuses browserSet page =
     (if pageUnavailable browserSet page then None
      else
        case page of
          PageOpen evaluates d \<Rightarrow>
            if \<not> evaluates then None
            else (case agentContainer d of
                    None \<Rightarrow> None
                  | Some agentItems \<Rightarrow>
                      if agentItems = [] then Some []
                      else Some (List.map_filter agentOfItem agentItems))
        | _ \<Rightarrow> None)"

text \<open>
  The snapshot that a collection cycle hands to the callback: the status found by
  \<open>getStatus\<close> (taken as given), the call statistics and the roster.
\<close>

definition statusData :: "status_result \<Rightarrow> bool \<Rightarrow> page_state \<Rightarrow> nat \<Rightarrow> scrape_result" where
  "statusData status browserSet page now =
     \<lparr>sr_status = Some status,
      sr_callStats = fetchCallStats browserSet page now,
      sr_agentStatuses =
        (case fetchAllAgentStatuses browserSet page of
           None \<Rightarrow> AgentsNull
         | Some roster \<Rightarrow> Agents roster),
      sr_debugInfo = None\<rparr>"

subsection \<open>Manual login and initialisation\<close>

text \<open>
  What one poll of \<open>waitForLogin\<close> reads from the page: the address, the presence of a
  login form and of the post-login elements, and the keys of the local storage.
\<close>

record page_probe =
  href :: string
  loginFormPresent :: bool
  userMenu :: bool
  switchboard :: bool
  presenceIndicator :: bool
  localStorageKeys :: "string list"

definition is3CXUrl :: "page_probe \<Rightarrow> bool" where
  "is3CXUrl p = (str_includes (href p) ''my3cx'' \<or> str_includes (href p) ''3cx'')"

definition loginFormVisibleOn3CX :: "page_probe \<Rightarrow> bool" where
  "loginFormVisibleOn3CX p = (str_includes (href p) ''3cx'' \<and> loginFormPresent p)"

definition hasAuthToken :: "page_probe \<Rightarrow> bool" where
  "hasAuthToken p =
     list_ex (\<lambda>key. str_includes (toLowerCase key) ''token'' \<or>
                     str_includes (toLowerCase key) ''auth'' \<or>
                     str_includes (toLowerCase key) ''session'')
       (localStorageKeys p)"

definition is3CXLoggedIn :: "page_probe \<Rightarrow> bool" where
  "is3CXLoggedIn p =
     (is3CXUrl p \<and> \<not> loginFormVisibleOn3CX p \<and>
      (userMenu p \<or> switchboard p \<or> presenceIndicator p \<or> hasAuthToken p))"

text \<open>
  One pass of the loop body: \<open>page.evaluate\<close> throws, or it yields a probe; the flag says
  whether saving the cookies and reading the storage then succeed (an error there is
  caught by the same \<open>catch\<close>, and the loop goes on).
\<close>

datatype poll = EvaluateFails | Observed page_probe bool

fun loginDetected :: "poll \<Rightarrow> bool" where
  "loginDetected EvaluateFails = False"
| "loginDetected (Observed p saved) = (is3CXLoggedIn p \<and> saved)"

text \<open>
  The environment of the loop: the \<open>k\<close>-th poll and the time it takes, in milliseconds.
  After a poll without success the loop sleeps 5000 ms.
\<close>

record login_env =
  polls :: "nat \<Rightarrow> poll"
  pollDuration :: "nat \<Rightarrow> nat"

definition maxWaitTime :: nat where
  "maxWaitTime = 10 * 60 * 1000"

text \<open>
  The \<open>while\<close> loop of \<open>waitForLogin\<close>, entered at pass \<open>k\<close> with \<open>elapsed\<close> milliseconds
  since \<open>startTime\<close>; the value is \<open>loginSuccessful\<close> at its exit.
\<close>

function waitLoop :: "login_env \<Rightarrow> nat \<Rightarrow> nat \<Rightarrow> bool" where
  "waitLoop env elapsed k =
     (if elapsed < maxWaitTime
      then (if loginDetected (polls env k) then True
            else waitLoop env (elapsed + pollDuration env k + 5000) (Suc k))
      else False)"
  by pat_completeness auto
termination
  by (relation "measure (\<lambda>(env, elapsed, k). maxWaitTime - elapsed)") auto

declare waitLoop.simps [simp del]

definition waitForLogin :: "login_env \<Rightarrow> bool" where
  "waitForLogin env = waitLoop env 0 0"

text \<open>A cookie: its name and its expiry in seconds (\<open>0\<close> is falsy).\<close>

record cookie =
  cookie_name :: string
  expires :: int

text \<open>
  What \<open>initialize\<close> meets.  \<open>savedCookies\<close> is the content of \<open>cookies.json\<close>
  (\<open>None\<close> when it cannot be read or parsed); the flags say whether the calls that may
  throw succeed; \<open>loginRequired\<close> and \<open>switchboardReached\<close> are the results of
  \<open>checkIfLoginRequired\<close> and \<open>navigateToSwitchboard\<close>, which catch their own errors.
\<close>

record init_env =
  savedCookies :: "cookie list option"
  headlessConfig :: bool
  launchSucceeds :: bool
  gotoSucceeds :: bool
  loginRequired :: bool
  relaunchSucceeds :: bool
  login :: login_env
  pageCookies :: "cookie list option"
  nowMs :: int
  writeCookiesSucceeds :: bool
  switchboardReached :: bool

text \<open>
  The result of \<open>initialize\<close>, and whether it has started the refresh interval.
\<close>

record init_outcome =
  resolved :: "js_error + bool"
  refreshStarted :: bool

definition keepCookie :: "int \<Rightarrow> cookie \<Rightarrow> bool" where
  "keepCookie now c = (expires c = 0 \<or> expires c * 1000 > now + 24 * 60 * 60 * 1000)"

text \<open>
  The body of the \<open>try\<close> of \<open>initialize\<close>.  Loading the saved cookies into the page has
  its own \<open>catch\<close> and does not change the control flow; it is left out.
\<close>

definition initialize_try :: "init_env \<Rightarrow> init_outcome" where
  "initialize_try env =
     (let hasSavedCookies = (case savedCookies env of None \<Rightarrow> False | Some cs \<Rightarrow> cs \<noteq> []);
          headlessMode = (if hasSavedCookies then headlessConfig env else False);
          thrown = (\<lambda>m. \<lparr>resolved = Inl (Error m), refreshStarted = False\<rparr>);
          finish = \<lparr>resolved = Inr True, refreshStarted = True\<rparr>
      in if \<not> launchSucceeds env then thrown ''launch''
         else if \<not> gotoSucceeds env then thrown ''goto''
         else if loginRequired env \<and> headlessMode \<and> \<not> relaunchSucceeds env then thrown ''relaunch''
         else if loginRequired env
         then
           let loginResult = waitForLogin (login env)
           in (case pageCookies env of
                 None \<Rightarrow> thrown ''cookies''
               | Some cookies \<Rightarrow>
                   if filter (keepCookie (nowMs env)) cookies \<noteq> [] \<and> \<not> writeCookiesSucceeds env
                   then thrown ''writeFile''
                   else finish)
         else finish)"

text \<open>\<open>initialize\<close>: the \<open>catch\<close> answers every error with \<open>false\<close>.\<close>

definition initialize :: "init_env \<Rightarrow> init_outcome" where
  "initialize env =
     (case resolved (initialize_try env) of
        Inl error \<Rightarrow> \<lparr>resolved = Inr False, refreshStarted = False\<rparr>
      | Inr value \<Rightarrow> initialize_try env)"

text \<open>
  A session in which nobody logs in: no saved cookies, the browser starts and reaches
  the 3CX address, every poll shows the login form, and nothing else fails.
\<close>

definition login_page :: page_probe where
  "login_page =
     \<lparr>href = ''https://primonz.my3cx.nz/#/login'', loginFormPresent = True, userMenu = False,
      switchboard = False, presenceIndicator = False, localStorageKeys = []\<rparr>"

definition nobody_logs_in :: init_env where
  "nobody_logs_in =
     \<lparr>savedCookies = None, headlessConfig = False, launchSucceeds = True, gotoSucceeds = True,
      loginRequired = True, relaunchSucceeds = True,
      login = \<lparr>polls = (\<lambda>k. Observed login_page True), pollDuration = (\<lambda>k. 0)\<rparr>,
      pageCookies = Some [], nowMs = 0, writeCookiesSucceeds = True,
      switchboardReached = False\<rparr>"

subsection \<open>Collection triggers and the debounce timer\<close>

text \<open>The \<open>source\<close> argument of \<open>collectAndSendStatusData\<close>.\<close>

datatype trigger_source = Initial | Interval | Observer

text \<open>
  The timers of the process.  A pending timer has a handle, the milliseconds left until
  it fires, and the source its callback was created with; the callback of every timer of
  this module runs one collection cycle.  \<open>debounceTimer\<close> is the module variable: the
  handle of the timer set last (it is never reset).  \<open>cyclesRun\<close> lists the collection
  cycles started so far, oldest first.
\<close>

record timer =
  timer_id :: nat
  remaining :: nat
  timer_source :: trigger_source

record scheduler =
  nextTimerId :: nat
  pendingTimers :: "timer list"
  debounceTimer :: "nat option"
  cyclesRun :: "trigger_source list"






text \<open>
  The event loop runs for \<open>d\<close> milliseconds: the timers due within \<open>d\<close> fire, the
  earliest first, and each starts its cycle; the others come \<open>d\<close> closer.
\<close>

definition elapse :: "nat \<Rightarrow> scheduler \<Rightarrow> scheduler" where
  "elapse d s =
     (let due = filter (\<lambda>t. remaining t \<le> d) (pendingTimers s);
          later = filter (\<lambda>t. \<not> remaining t \<le> d) (pendingTimers s)
      in s\<lparr>pendingTimers := map (\<lambda>t. t\<lparr>remaining := remaining t - d\<rparr>) later,
           cyclesRun := cyclesRun s @ map timer_source (sort_key remaining due)\<rparr>)"




section \<open>Properties of numbers and their strings\<close>

text \<open>Integers below \<open>2^53\<close> in magnitude are doubles: rounding and addition are exact.\<close>

lemma bitlen_bound: "n < 2 ^ k \<Longrightarrow> bitlen n \<le> k"
proof (induction k arbitrary: n)
  case 0
  then have "n \<le> 0" by simp
  then show ?case by (simp add: bitlen.simps)
next
  case (Suc k)
  show ?case
  proof (cases "n \<le> 0")
    case True
    then show ?thesis by (simp add: bitlen.simps)
  next
    case False
    from Suc.prems have "n div 2 < 2 ^ k" by simp
    then have "bitlen (n div 2) \<le> k" by (rule Suc.IH)
    with False show ?thesis by (subst bitlen.simps) simp
  qed
qed

lemma toDouble_exact:
  assumes "\<bar>x\<bar> < 2 ^ 53"
  shows "toDouble x = Num x"
proof -
  have "bitlen \<bar>x\<bar> \<le> 53"
    using assms by (rule bitlen_bound)
  then have "roundMagnitude \<bar>x\<bar> = Some \<bar>x\<bar>"
    by (simp add: roundMagnitude_def)
  then show ?thesis
    by (simp add: toDouble_def)
qed

lemma jsAdd_exact:
  assumes "\<bar>sv + ab\<bar> < 2 ^ 53" "\<bar>sv + ab + w\<bar> < 2 ^ 53"
  shows "jsAdd (jsAdd (Num sv) (Num ab)) (Num w) = Num (w + sv + ab)"
proof -
  have "jsAdd (Num sv) (Num ab) = Num (sv + ab)"
    using assms(1) by (simp add: toDouble_exact)
  moreover have "jsAdd (Num (sv + ab)) (Num w) = Num (sv + ab + w)"
    using assms(2) by (simp add: toDouble_exact)
  ultimately show ?thesis by (simp add: add.commute add.left_commute)
qed

lemma digit_cases:
  assumes "0 \<le> d" "d < (10::int)"
  shows "d = 0 \<or> d = 1 \<or> d = 2 \<or> d = 3 \<or> d = 4 \<or> d = 5 \<or> d = 6 \<or> d = 7 \<or> d = 8 \<or> d = 9"
  using assms by arith

lemma digit_char:
  assumes "0 \<le> d" "d < (10::int)"
  shows "isDigit (char_of (48 + nat d))"
    and "int (of_char (char_of (48 + nat d))) - 48 = d"
    and "\<not> isWhiteSpace (char_of (48 + nat d))"
  using digit_cases [OF assms]
  by (elim disjE; hypsubst; code_simp)+


lemma not_digit_chars:
  "\<not> isDigit CHR ''x''" "\<not> isDigit CHR ''X''" "\<not> isDigit CHR ''-''" "\<not> isDigit CHR ''+''"
  "\<not> isWhiteSpace CHR ''-''"
  by code_simp+

lemma digitsValue_snoc:
  "digitsValue (xs @ [c]) = 10 * digitsValue xs + (int (of_char c) - 48)"
  by (simp add: digitsValue_def)

lemma showNat_props:
  assumes "0 \<le> n"
  shows "showNat n \<noteq> [] \<and> list_all isDigit (showNat n) \<and> digitsValue (showNat n) = n"
  using assms
proof (induction n rule: showNat.induct)
  case (1 n)
  show ?case
  proof (cases "n < 10")
    case True
    then have eq: "showNat n = [char_of (48 + nat n)]"
      by (subst showNat.simps) simp
    from digit_char [OF "1.prems" True] show ?thesis
      unfolding eq by (simp add: digitsValue_def del: of_char_of)
  next
    case False
    then have eq: "showNat n = showNat (n div 10) @ [char_of (48 + nat (n mod 10))]"
      by (subst showNat.simps) simp
    have nn: "0 \<le> n div 10"
      using "1.prems" by simp
    have d: "0 \<le> n mod 10" "n mod 10 < 10"
      by simp_all
    from "1.IH" [OF False nn]
    have ih: "list_all isDigit (showNat (n div 10))" "digitsValue (showNat (n div 10)) = n div 10"
      by simp_all
    from digit_char [OF d] ih show ?thesis
      unfolding eq by (simp add: digitsValue_snoc del: of_char_of)
  qed
qed

lemma takeWhile_all: "list_all P xs \<Longrightarrow> takeWhile P xs = xs"
  by (induction xs) auto

lemma digits_no_hex_prefix:
  assumes "list_all isDigit s"
  shows "\<not> startsWith s ''0x''" "\<not> startsWith s ''0X''"
proof -
  show "\<not> startsWith s ''0x''"
  proof (cases s)
    case Nil
    then show ?thesis by simp
  next
    case (Cons a t)
    then show ?thesis using assms not_digit_chars(1) by (cases t) auto
  qed
  show "\<not> startsWith s ''0X''"
  proof (cases s)
    case Nil
    then show ?thesis by simp
  next
    case (Cons a t)
    then show ?thesis using assms not_digit_chars(2) by (cases t) auto
  qed
qed

lemma digit_not_space: "isDigit c \<Longrightarrow> \<not> isWhiteSpace c"
  by (simp add: isDigit_def isWhiteSpace_def) (elim disjE; hypsubst; code_simp)

lemma parseInt_digits:
  assumes "s \<noteq> []" "list_all isDigit s"
  shows "parseInt s = toDouble (digitsValue s)"
proof -
  obtain a t where s: "s = a # t" using assms(1) by (cases s) auto
  with assms(2) have a: "isDigit a" by simp
  then have "\<not> isWhiteSpace a" by (rule digit_not_space)
  then have dw: "dropWhile isWhiteSpace s = s" by (simp add: s)
  have sign: "a \<noteq> CHR ''-''" "a \<noteq> CHR ''+''"
    using a not_digit_chars by auto
  have u: "(if s \<noteq> [] \<and> (hd s = CHR ''-'' \<or> hd s = CHR ''+'') then tl s else s) = s"
    using sign by (simp add: s)
  have neg: "(s \<noteq> [] \<and> hd s = CHR ''-'') = False"
    using sign by (simp add: s)
  have hex: "(startsWith s ''0x'' \<or> startsWith s ''0X'') = False"
    using digits_no_hex_prefix [OF assms(2)] by simp
  have tw: "takeWhile isDigit s = s"
    using assms(2) by (rule takeWhile_all)
  show ?thesis
    unfolding parseInt_def Let_def dw u neg hex tw using assms(1) by simp
qed

lemma parseInt_negative_digits:
  assumes "s \<noteq> []" "list_all isDigit s"
  shows "parseInt (CHR ''-'' # s) = toDouble (- digitsValue s)"
proof -
  let ?m = "CHR ''-'' # s"
  have dw: "dropWhile isWhiteSpace ?m = ?m"
    using not_digit_chars(5) by simp
  have u: "(if ?m \<noteq> [] \<and> (hd ?m = CHR ''-'' \<or> hd ?m = CHR ''+'') then tl ?m else ?m) = s"
    by simp
  have neg: "(?m \<noteq> [] \<and> hd ?m = CHR ''-'') = True"
    by simp
  have hex: "(startsWith s ''0x'' \<or> startsWith s ''0X'') = False"
    using digits_no_hex_prefix [OF assms(2)] by simp
  have tw: "takeWhile isDigit s = s"
    using assms(2) by (rule takeWhile_all)
  show ?thesis
    unfolding parseInt_def Let_def dw u neg hex tw using assms(1) by simp
qed

lemma parseInt_numberToString: "parseInt (numberToString n) = toDouble n"
proof (cases "n < 0")
  case True
  then have "0 \<le> - n" by simp
  from showNat_props [OF this] True show ?thesis
    by (simp add: numberToString_def parseInt_negative_digits)
next
  case False
  then have "0 \<le> n" by simp
  from showNat_props [OF this] False show ?thesis
    by (simp add: numberToString_def parseInt_digits)
qed

lemma colorByte_integer:
  assumes "\<bar>n\<bar> < 2 ^ 53"
  shows "colorByte (numberToString n) = Num (max 0 (min 255 n))"
  using assms by (simp add: colorByte_def parseInt_numberToString toDouble_exact)


lemma parseInt10_digits:
  assumes "s \<noteq> []" "list_all isDigit s"
  shows "parseInt10 s = toDouble (digitsValue s)"
proof -
  obtain a t where s: "s = a # t" using assms(1) by (cases s) auto
  with assms(2) have a: "isDigit a" by simp
  then have "\<not> isWhiteSpace a" by (rule digit_not_space)
  then have dw: "dropWhile isWhiteSpace s = s" by (simp add: s)
  have sign: "a \<noteq> CHR ''-''" "a \<noteq> CHR ''+''"
    using a not_digit_chars by auto
  have u: "(if s \<noteq> [] \<and> (hd s = CHR ''-'' \<or> hd s = CHR ''+'') then tl s else s) = s"
    using sign by (simp add: s)
  have neg: "(s \<noteq> [] \<and> hd s = CHR ''-'') = False"
    using sign by (simp add: s)
  have tw: "takeWhile isDigit s = s"
    using assms(2) by (rule takeWhile_all)
  show ?thesis
    unfolding parseInt10_def Let_def dw u neg tw using assms(1) by simp
qed

lemma parseInt10_negative_digits:
  assumes "s \<noteq> []" "list_all isDigit s"
  shows "parseInt10 (CHR ''-'' # s) = toDouble (- digitsValue s)"
proof -
  let ?m = "CHR ''-'' # s"
  have dw: "dropWhile isWhiteSpace ?m = ?m"
    using not_digit_chars(5) by simp
  have u: "(if ?m \<noteq> [] \<and> (hd ?m = CHR ''-'' \<or> hd ?m = CHR ''+'') then tl ?m else ?m) = s"
    by simp
  have neg: "(?m \<noteq> [] \<and> hd ?m = CHR ''-'') = True"
    by simp
  have tw: "takeWhile isDigit s = s"
    using assms(2) by (rule takeWhile_all)
  show ?thesis
    unfolding parseInt10_def Let_def dw u neg tw using assms(1) by simp
qed

lemma parseInt10_numberToString: "parseInt10 (numberToString n) = toDouble n"
proof (cases "n < 0")
  case True
  then have "0 \<le> - n" by simp
  from showNat_props [OF this] True show ?thesis
    by (simp add: numberToString_def parseInt10_negative_digits)
next
  case False
  then have "0 \<le> n" by simp
  from showNat_props [OF this] False show ?thesis
    by (simp add: numberToString_def parseInt10_digits)
qed

lemma parseCount_integer:
  assumes "\<bar>n\<bar> < 2 ^ 53"
  shows "parseCount (numberToString n) = Num n"
  using assms by (simp add: parseCount_def parseInt10_numberToString toDouble_exact)

section \<open>Properties of the status normaliser\<close>

lemma startsWith_refl: "startsWith s s"
  by (induction s) auto

lemma str_includes_refl: "str_includes s s"
  by (cases s) (auto simp: startsWith_refl)

lemma normalizeStatus_no_match:
  assumes "\<not> inheritedName (trim (toLowerCase s))"
    and "\<forall>k \<in> fst ` set statusMap. \<not> str_includes (trim (toLowerCase s)) k"
  shows "normalizeStatus s = None"
proof -
  let ?l = "trim (toLowerCase s)"
  have "map_of statusMap ?l = None"
  proof (rule ccontr)
    assume "map_of statusMap ?l \<noteq> None"
    then obtain v where "map_of statusMap ?l = Some v" by auto
    then have "(?l, v) \<in> set statusMap" by (rule map_of_SomeD)
    then have "?l \<in> fst ` set statusMap" by force
    with assms(2) have "\<not> str_includes ?l ?l" by blast
    then show False by (simp add: str_includes_refl)
  qed
  moreover have "find (\<lambda>(key, value). str_includes ?l key) statusMap = None"
    using assms(2) by (force simp: find_None_iff)
  ultimately show ?thesis
    using assms(1) by (simp add: normalizeStatus_def Let_def)
qed

text \<open>What the code returns for each entry of the specification's table.\<close>

lemma spec_table_values:
  "\<forall>(k, v) \<in> set spec_keyword_table.
      normalizeStatus k =
        (if k = ''ringing'' then None
         else if v = ''onCall'' then Some (StatusString ''on-call'')
         else Some (StatusString v))"
  by code_simp

text \<open>
  C1.  The claim: every text of the specification's keyword table is normalised to the
  listed member of the status vocabulary \<open>available\<close>, \<open>ringing\<close>, \<open>onCall\<close>, \<open>dnd\<close>,
  \<open>away\<close>, \<open>offline\<close>, and a text that matches no key to \<open>null\<close>.  The code: the text
  "ringing" is in no entry of \<open>statusMap\<close> and yields \<open>null\<close>; the text "on call" yields
  the string \<open>on-call\<close>, which is no key of \<open>statusColors\<close> and which \<open>getColorForStatus\<close>
  paints gray, while the roster path of the same module turns \<open>on-call\<close> into \<open>onCall\<close>;
  the text "constructor", which matches no key, yields the member inherited from
  \<open>Object.prototype\<close> instead of \<open>null\<close>.
\<close>

theorem normalizeStatus_ringing_and_on_call:
  "(''ringing'', ''ringing'') \<in> set spec_keyword_table \<and>
     normalizeStatus ''ringing'' = None \<and>
   (''on call'', ''onCall'') \<in> set spec_keyword_table \<and>
     normalizeStatus ''on call'' = Some (StatusString ''on-call'') \<and>
     statusColors_get ''on-call'' = Undefined \<and>
     getColorForStatus ''on-call'' = ''gray'' \<and>
     statusFromClasses [''on-call''] = ''onCall'' \<and>
   ''constructor'' \<notin> fst ` set statusMap \<and>
     normalizeStatus ''constructor'' = Some (InheritedMember ''constructor'')"
  by code_simp
section \<open>Properties of the LED device adapter\<close>





lemma updateWLED_text_request:
  assumes "ipAddress cfg = Some ip" and "ip \<noteq> []"
  shows "snd (updateWLED cfg dev (ColorObject (Text cr) (Text cg) (Text cb))) =
           [\<lparr>url = ''http://'' @ ip @ ''/json'',
             body = \<lparr>on = True, bri = brightness cfg,
                      transition_s = of_int (transition cfg) / 1000,
                      seg = [\<lparr>col = [(colorByte cr, colorByte cg, colorByte cb)],
                               fx = 0, sx = 128, ix = 128\<rparr>]\<rparr>\<rparr>]"
  using assms
  by (cases "dev \<lparr>url = ''http://'' @ ip @ ''/json'',
             body = \<lparr>on = True, bri = brightness cfg,
                      transition_s = of_int (transition cfg) / 1000,
                      seg = [\<lparr>col = [(colorByte cr, colorByte cg, colorByte cb)],
                               fx = 0, sx = 128, ix = 128\<rparr>]\<rparr>\<rparr>")
     (simp_all add: updateWLED_def updateWLED_try_def Let_def)


text \<open>
  What \<open>parseInt\<close> makes of some properties that are not integers in range: a missing
  property and a word are 0, a fraction loses its fraction, the number \<open>1e21\<close> (whose
  string is \<open>1e+21\<close>) is 1, a hexadecimal string is read in base 16.
\<close>

lemma colorByte_examples:
  "colorByte ''undefined'' = Num 0"
  "colorByte ''red'' = Num 0"
  "colorByte ''12.9'' = Num 12"
  "colorByte ''1e+21'' = Num 1"
  "colorByte ''0x10'' = Num 16"
  "colorByte '' 200px'' = Num 200"
  "colorByte ''-0'' = Num 0"
  by code_simp+




section \<open>Properties of the reconciliation core\<close>

lemma sendToAll_fields [simp]:
  "currentStatus (sendToAll m s) = currentStatus s"
  "isMonitoring (sendToAll m s) = isMonitoring s"
  "latestCallStats (sendToAll m s) = latestCallStats s"
  "teamStatus (sendToAll m s) = teamStatus s"
  "lastTeamStatusUpdate (sendToAll m s) = lastTeamStatusUpdate s"
  "latestAgentStatuses (sendToAll m s) = latestAgentStatuses s"
  "latestDebugInfo (sendToAll m s) = latestDebugInfo s"
  "manualStatusOverride (sendToAll m s) = manualStatusOverride s"
  "manualStatusTimestamp (sendToAll m s) = manualStatusTimestamp s"
  "clients (sendToAll m s) = clients s"
  "wledRequests (sendToAll m s) = wledRequests s"
  "sent (sendToAll m s) = sent s @ map (\<lambda>c. (client_id c, m)) (filter readyOpen (clients s))"
  by (simp_all add: sendToAll_def)

lemma updateWLEDWithStatus_fields [simp]:
  "currentStatus (snd (updateWLEDWithStatus cfg dev st s)) = currentStatus s"
  "isMonitoring (snd (updateWLEDWithStatus cfg dev st s)) = isMonitoring s"
  "latestCallStats (snd (updateWLEDWithStatus cfg dev st s)) = latestCallStats s"
  "teamStatus (snd (updateWLEDWithStatus cfg dev st s)) = teamStatus s"
  "latestAgentStatuses (snd (updateWLEDWithStatus cfg dev st s)) = latestAgentStatuses s"
  "manualStatusOverride (snd (updateWLEDWithStatus cfg dev st s)) = manualStatusOverride s"
  "clients (snd (updateWLEDWithStatus cfg dev st s)) = clients s"
  by (auto simp: updateWLEDWithStatus_def broadcastWLEDStatus_def
           split: property_value.splits prod.splits sum.splits)

lemma updateWLEDWithStatus_requests:
  "wledRequests (snd (updateWLEDWithStatus cfg dev st s)) =
     wledRequests s @ (if statusColors_get st = Undefined then []
                       else snd (updateWLED cfg dev (color_arg_of (statusColors_get st))))"
  by (auto simp: updateWLEDWithStatus_def broadcastWLEDStatus_def
           split: property_value.splits prod.splits sum.splits)

lemma updateWLEDWithStatus_sent:
  "\<exists>rest. sent (snd (updateWLEDWithStatus cfg dev st s)) = sent s @ rest"
  by (auto simp: updateWLEDWithStatus_def broadcastWLEDStatus_def
           split: property_value.splits prod.splits sum.splits)

lemma statusColors_get_Undefined:
  "statusColors_get st = Undefined \<longleftrightarrow>
     st \<notin> {''available'', ''ringing'', ''onCall'', ''dnd'', ''away'', ''offline''} \<and>
     \<not> inheritedName st"
  by (auto simp: statusColors_get_def statusColors_def inheritedName_def split: option.splits)

lemma statusColors_cases:
  assumes "(st, r, g, b) \<in> set statusColors"
  shows "(st, r, g, b) = (''available'', 0, 255, 0) \<or> (st, r, g, b) = (''ringing'', 255, 255, 0) \<or>
         (st, r, g, b) = (''onCall'', 255, 0, 0) \<or> (st, r, g, b) = (''dnd'', 128, 0, 128) \<or>
         (st, r, g, b) = (''away'', 255, 165, 0) \<or> (st, r, g, b) = (''offline'', 0, 0, 255)"
  using assms unfolding statusColors_def by simp

lemma statusColors_get_own:
  assumes "(st, r, g, b) \<in> set statusColors"
  shows "statusColors_get st = OwnColor r g b \<and>
         colorByte (numberToString r) = Num r \<and> colorByte (numberToString g) = Num g \<and>
         colorByte (numberToString b) = Num b"
  using statusColors_cases [OF assms]
  by (elim disjE) (simp_all add: statusColors_get_def statusColors_def colorByte_integer)

subsection \<open>Manual status submission\<close>

lemma statusMessage_eq:
  "statusMessage cfg (s\<lparr>currentStatus := st\<rparr>) =
     StatusUpdate st (isMonitoring s) (latestCallStats s) (latestAgentStatuses s)
       (map (\<lambda>member. member\<lparr>agent_color := getColorForStatus (agent_status member)\<rparr>)
          (teamStatus s))
       (ipAddress cfg)"
  by (simp add: statusMessage_def)

text \<open>
  The state after the synchronous part of the WebSocket status command with a truthy
  status: the two assignments and the broadcast.
\<close>

lemma onMessage_status:
  assumes "st \<noteq> []"
  shows "onMessage cfg dev sender (StatusCommand (Some st) m) s =
           snd (updateWLEDWithStatus cfg dev st
                  (broadcastStatus cfg
                     (s\<lparr>currentStatus := st,
                        isMonitoring := (case m of None \<Rightarrow> isMonitoring s | Some b \<Rightarrow> b)\<rparr>)))"
  using assms by (cases m) (simp_all add: Let_def)

lemma onMessage_currentStatus:
  assumes "st \<noteq> []"
  shows "currentStatus (onMessage cfg dev sender (StatusCommand (Some st) m) s) = st"
  unfolding onMessage_status [OF assms] by (simp add: broadcastStatus_def)

lemma onMessage_sent:
  assumes "st \<noteq> []"
  shows "\<exists>rest. sent (onMessage cfg dev sender (StatusCommand (Some st) m) s) =
           sent s @
           map (\<lambda>c. (client_id c,
                      StatusUpdate st (case m of None \<Rightarrow> isMonitoring s | Some b \<Rightarrow> b)
                        (latestCallStats s) (latestAgentStatuses s)
                        (map (\<lambda>member. member\<lparr>agent_color := getColorForStatus (agent_status member)\<rparr>)
                           (teamStatus s))
                        (ipAddress cfg)))
               (filter readyOpen (clients s)) @ rest"
proof -
  let ?s2 = "s\<lparr>currentStatus := st,
               isMonitoring := (case m of None \<Rightarrow> isMonitoring s | Some b \<Rightarrow> b)\<rparr>"
  let ?b = "broadcastStatus cfg ?s2"
  obtain rest where r: "sent (snd (updateWLEDWithStatus cfg dev st ?b)) = sent ?b @ rest"
    using updateWLEDWithStatus_sent by blast
  have b: "sent ?b =
      sent s @
      map (\<lambda>c. (client_id c,
                 StatusUpdate st (case m of None \<Rightarrow> isMonitoring s | Some b \<Rightarrow> b)
                   (latestCallStats s) (latestAgentStatuses s)
                   (map (\<lambda>member. member\<lparr>agent_color := getColorForStatus (agent_status member)\<rparr>)
                      (teamStatus s))
                   (ipAddress cfg)))
          (filter readyOpen (clients s))"
    by (simp add: broadcastStatus_def statusMessage_def)
  show ?thesis
    unfolding onMessage_status [OF assms] using r b by simp
qed

lemma onMessage_requests:
  assumes "st \<noteq> []"
  shows "wledRequests (onMessage cfg dev sender (StatusCommand (Some st) m) s) =
     wledRequests s @ (if statusColors_get st = Undefined then []
                       else snd (updateWLED cfg dev (color_arg_of (statusColors_get st))))"
  unfolding onMessage_status [OF assms]
  by (simp add: updateWLEDWithStatus_requests broadcastStatus_def)

text \<open>
  No handler assigns \<open>true\<close> to \<open>manualStatusOverride\<close>: the WebSocket commands and
  the scraper callback can only keep it or clear it.
\<close>

lemma onMessage_override:
  "manualStatusOverride (onMessage cfg dev sender c s) \<Longrightarrow> manualStatusOverride s"
  by (cases c) (simp_all add: Let_def broadcastStatus_def split: option.splits if_splits)

lemma onMessage_status_override:
  "manualStatusOverride (onMessage cfg dev sender (StatusCommand status m) s) =
     manualStatusOverride s"
  by (simp add: Let_def broadcastStatus_def split: option.splits)

lemma handleStatusChange_override:
  "manualStatusOverride (handleStatusChange cfg dev now err r s) = manualStatusOverride s"
  by (simp add: handleStatusChange_def Let_def broadcastDebugInfo_def broadcastCallStats_def
        broadcastTeamStatus_def broadcastStatus_def split: option.splits agents_result.splits)

text \<open>
  The route \<open>POST /api/status\<close> reads the same two fields from \<open>req.body\<close>.  No
  middleware fills \<open>req.body\<close>, so the handler throws at its first statement, whatever
  body the request carries, and the state is as before.  With a body, the handler would
  not touch the override flag either, and \<open>updateWLEDWithStatus\<close> is its two steps run
  one after the other.
\<close>

lemma apiStatus_throws:
  "\<exists>e. apiStatus cfg dev sentBody s = (Inl e, s)"
  by (simp add: apiStatus_def requestBody_def postStatus_def)

lemma finishWLEDUpdate_override:
  "manualStatusOverride (snd (finishWLEDUpdate pending s)) = manualStatusOverride s"
  by (simp add: finishWLEDUpdate_def broadcastWLEDStatus_def split: option.splits sum.splits)

lemma startWLEDUpdate_override:
  "manualStatusOverride (snd (startWLEDUpdate cfg dev st s)) = manualStatusOverride s"
  by (simp add: startWLEDUpdate_def split: property_value.splits prod.splits)

lemma postStatus_override:
  "manualStatusOverride (snd (postStatus cfg dev reqBody s)) = manualStatusOverride s"
proof (cases reqBody)
  case None
  then show ?thesis by (simp add: postStatus_def)
next
  case (Some fields)
  obtain status monitoring where f: "fields = (status, monitoring)"
    by (cases fields)
  show ?thesis
  proof (cases "status = None \<or> status = Some []")
    case True
    then show ?thesis
      using Some f
      by (cases monitoring)
         (auto simp: postStatus_def finishWLEDUpdate_def broadcastStatus_def)
  next
    case False
    then obtain st where st: "status = Some st" "st \<noteq> []"
      by auto
    obtain pending s1 where p:
      "startWLEDUpdate cfg dev st (broadcastStatus cfg (s\<lparr>currentStatus := st\<rparr>)) = (pending, s1)"
      by (cases "startWLEDUpdate cfg dev st (broadcastStatus cfg (s\<lparr>currentStatus := st\<rparr>))")
    have "manualStatusOverride (broadcastStatus cfg (s\<lparr>currentStatus := st\<rparr>)) =
            manualStatusOverride s"
      by (simp add: broadcastStatus_def)
    moreover have "manualStatusOverride s1 =
            manualStatusOverride (broadcastStatus cfg (s\<lparr>currentStatus := st\<rparr>))"
      using startWLEDUpdate_override [of cfg dev st "broadcastStatus cfg (s\<lparr>currentStatus := st\<rparr>)"]
      unfolding p by simp
    ultimately have "manualStatusOverride s1 = manualStatusOverride s"
      by simp
    then show ?thesis
      using Some f st p
      by (cases monitoring)
         (simp_all add: postStatus_def finishWLEDUpdate_override broadcastStatus_def)
  qed
qed

lemma updateWLEDWithStatus_two_steps:
  "updateWLEDWithStatus cfg dev st s =
     (case startWLEDUpdate cfg dev st s of (pending, s') \<Rightarrow> finishWLEDUpdate pending s')"
  by (simp add: updateWLEDWithStatus_def startWLEDUpdate_def finishWLEDUpdate_def
        broadcastWLEDStatus_def sendToAll_def
      split: property_value.splits prod.splits sum.splits)

text \<open>
  C3 (as stated, refuted).  After the status command with \<open>dnd\<close> in the initial state
  the status is \<open>dnd\<close> but the variable \<open>manualStatusOverride\<close> is still \<open>false\<close>:
  no statement of the program assigns \<open>true\<close> to it.
\<close>

theorem statusCommand_override_counterexample:
  "currentStatus
     (onMessage start_config (\<lambda>request. HttpOk) 1 (StatusCommand (Some ''dnd'') None)
        initial_state) = ''dnd'' \<and>
   manualStatusOverride
     (onMessage start_config (\<lambda>request. HttpOk) 1 (StatusCommand (Some ''dnd'') None)
        initial_state) = False"
proof -
  have "''dnd'' \<noteq> []"
    by simp
  then have "currentStatus
     (onMessage start_config (\<lambda>request. HttpOk) 1 (StatusCommand (Some ''dnd'') None)
        initial_state) = ''dnd''"
    by (rule onMessage_currentStatus)
  moreover have "manualStatusOverride
     (onMessage start_config (\<lambda>request. HttpOk) 1 (StatusCommand (Some ''dnd'') None)
        initial_state) = False"
    unfolding onMessage_status_override by (simp add: initial_state_def)
  ultimately show ?thesis
    by (rule conjI)
qed

text \<open>
  C3 (amended).  For every manual submission of a non-empty status string through the
  WebSocket status command, whatever the monitoring flag before and whatever flag the
  command carries: the submitted status becomes \<open>currentStatus\<close>; the first thing the
  handler emits is the status broadcast, with the new status, to every open client; the
  LED path is run with the new status: for a status of the colour table and a configured
  address, one POST with the colour of the table; for a status that is no key of the
  table and no name inherited from \<open>Object.prototype\<close>, no request.  The override flag
  keeps its value.
\<close>

theorem statusCommand_manual_submission:
  "st \<noteq> [] \<longrightarrow>
     currentStatus (onMessage cfg dev sender (StatusCommand (Some st) m) s) = st \<and>
     manualStatusOverride (onMessage cfg dev sender (StatusCommand (Some st) m) s) =
       manualStatusOverride s \<and>
     (\<exists>rest. sent (onMessage cfg dev sender (StatusCommand (Some st) m) s) =
        sent s @
        map (\<lambda>c. (client_id c,
                   StatusUpdate st (case m of None \<Rightarrow> isMonitoring s | Some b \<Rightarrow> b)
                     (latestCallStats s) (latestAgentStatuses s)
                     (map (\<lambda>member. member\<lparr>agent_color := getColorForStatus (agent_status member)\<rparr>)
                        (teamStatus s))
                     (ipAddress cfg)))
            (filter readyOpen (clients s)) @ rest) \<and>
     (\<forall>r g b ip. (st, r, g, b) \<in> set statusColors \<and> ipAddress cfg = Some ip \<and> ip \<noteq> [] \<longrightarrow>
        wledRequests (onMessage cfg dev sender (StatusCommand (Some st) m) s) =
          wledRequests s @
          [\<lparr>url = ''http://'' @ ip @ ''/json'',
            body = \<lparr>on = True, bri = brightness cfg,
                     transition_s = of_int (transition cfg) / 1000,
                     seg = [\<lparr>col = [(Num r, Num g, Num b)], fx = 0, sx = 128, ix = 128\<rparr>]\<rparr>\<rparr>]) \<and>
     (st \<notin> {''available'', ''ringing'', ''onCall'', ''dnd'', ''away'', ''offline''} \<and>
      \<not> inheritedName st \<longrightarrow>
        wledRequests (onMessage cfg dev sender (StatusCommand (Some st) m) s) = wledRequests s)"
proof (intro impI conjI)
  assume st: "st \<noteq> []"
  show "currentStatus (onMessage cfg dev sender (StatusCommand (Some st) m) s) = st"
    using st by (rule onMessage_currentStatus)
  show "manualStatusOverride (onMessage cfg dev sender (StatusCommand (Some st) m) s) =
       manualStatusOverride s"
    by (rule onMessage_status_override)
  show "\<exists>rest. sent (onMessage cfg dev sender (StatusCommand (Some st) m) s) =
        sent s @
        map (\<lambda>c. (client_id c,
                   StatusUpdate st (case m of None \<Rightarrow> isMonitoring s | Some b \<Rightarrow> b)
                     (latestCallStats s) (latestAgentStatuses s)
                     (map (\<lambda>member. member\<lparr>agent_color := getColorForStatus (agent_status member)\<rparr>)
                        (teamStatus s))
                     (ipAddress cfg)))
            (filter readyOpen (clients s)) @ rest"
    using st by (rule onMessage_sent)
  note req = onMessage_requests [OF st, of cfg dev sender m s]
  show "\<forall>r g b ip. (st, r, g, b) \<in> set statusColors \<and> ipAddress cfg = Some ip \<and> ip \<noteq> [] \<longrightarrow>
        wledRequests (onMessage cfg dev sender (StatusCommand (Some st) m) s) =
          wledRequests s @
          [\<lparr>url = ''http://'' @ ip @ ''/json'',
            body = \<lparr>on = True, bri = brightness cfg,
                     transition_s = of_int (transition cfg) / 1000,
                     seg = [\<lparr>col = [(Num r, Num g, Num b)], fx = 0, sx = 128, ix = 128\<rparr>]\<rparr>\<rparr>]"
  proof (intro allI impI)
    fix r g b ip
    assume h: "(st, r, g, b) \<in> set statusColors \<and> ipAddress cfg = Some ip \<and> ip \<noteq> []"
    then have key: "(st, r, g, b) \<in> set statusColors" and ip: "ipAddress cfg = Some ip" "ip \<noteq> []"
      by simp_all
    note own = statusColors_get_own [OF key]
    have "snd (updateWLED cfg dev
                 (ColorObject (Text (numberToString r)) (Text (numberToString g))
                    (Text (numberToString b)))) =
           [\<lparr>url = ''http://'' @ ip @ ''/json'',
             body = \<lparr>on = True, bri = brightness cfg,
                      transition_s = of_int (transition cfg) / 1000,
                      seg = [\<lparr>col = [(Num r, Num g, Num b)], fx = 0, sx = 128, ix = 128\<rparr>]\<rparr>\<rparr>]"
      using updateWLED_text_request [OF ip, of dev "numberToString r" "numberToString g"
               "numberToString b"] own
      by simp
    then show "wledRequests (onMessage cfg dev sender (StatusCommand (Some st) m) s) =
          wledRequests s @
          [\<lparr>url = ''http://'' @ ip @ ''/json'',
            body = \<lparr>on = True, bri = brightness cfg,
                     transition_s = of_int (transition cfg) / 1000,
                     seg = [\<lparr>col = [(Num r, Num g, Num b)], fx = 0, sx = 128, ix = 128\<rparr>]\<rparr>\<rparr>]"
      using req own by simp
  qed
  assume "st \<notin> {''available'', ''ringing'', ''onCall'', ''dnd'', ''away'', ''offline''} \<and>
      \<not> inheritedName st"
  then have "statusColors_get st = Undefined"
    by (simp add: statusColors_get_Undefined)
  then show "wledRequests (onMessage cfg dev sender (StatusCommand (Some st) m) s) = wledRequests s"
    using req by simp
qed

theorem statusCommand_manual_submission_witness:
  "''dnd'' \<noteq> [] \<and>
   (''dnd'', 128, 0, 128) \<in> set statusColors \<and>
   currentStatus
     (onMessage start_config (\<lambda>request. NetworkError) 1 (StatusCommand (Some ''dnd'') (Some False))
        (initial_state\<lparr>isMonitoring := False\<rparr>)) = ''dnd'' \<and>
   wledRequests
     (onMessage start_config (\<lambda>request. NetworkError) 1 (StatusCommand (Some ''dnd'') (Some False))
        (initial_state\<lparr>isMonitoring := False\<rparr>)) =
     [\<lparr>url = ''http://192.168.111.50/json'',
       body = \<lparr>on = True, bri = 128, transition_s = 1,
                seg = [\<lparr>col = [(Num 128, Num 0, Num 128)], fx = 0, sx = 128, ix = 128\<rparr>]\<rparr>\<rparr>]"
proof -
  have a: "''dnd'' \<noteq> []"
    by simp
  have b: "(''dnd'', 128, 0, 128) \<in> set statusColors"
    by (simp add: statusColors_def)
  have c: "ipAddress start_config = Some ''192.168.111.50'' \<and> ''192.168.111.50'' \<noteq> []"
    by (simp add: start_config_def)
  note th = statusCommand_manual_submission
              [of "''dnd''" start_config "\<lambda>request. NetworkError" 1 "Some False"
                  "initial_state\<lparr>isMonitoring := False\<rparr>", rule_format, OF a]
  have d: "currentStatus
     (onMessage start_config (\<lambda>request. NetworkError) 1 (StatusCommand (Some ''dnd'') (Some False))
        (initial_state\<lparr>isMonitoring := False\<rparr>)) = ''dnd''"
    using th by (rule conjunct1)
  have "wledRequests
     (onMessage start_config (\<lambda>request. NetworkError) 1 (StatusCommand (Some ''dnd'') (Some False))
        (initial_state\<lparr>isMonitoring := False\<rparr>)) =
     wledRequests (initial_state\<lparr>isMonitoring := False\<rparr>) @
     [\<lparr>url = ''http://'' @ ''192.168.111.50'' @ ''/json'',
       body = \<lparr>on = True, bri = brightness start_config,
                transition_s = of_int (transition start_config) / 1000,
                seg = [\<lparr>col = [(Num 128, Num 0, Num 128)], fx = 0, sx = 128, ix = 128\<rparr>]\<rparr>\<rparr>]"
    using th [THEN conjunct2, THEN conjunct2, THEN conjunct2, THEN conjunct1, rule_format,
              OF conjI, OF b c] .
  then have e: "wledRequests
     (onMessage start_config (\<lambda>request. NetworkError) 1 (StatusCommand (Some ''dnd'') (Some False))
        (initial_state\<lparr>isMonitoring := False\<rparr>)) =
     [\<lparr>url = ''http://192.168.111.50/json'',
       body = \<lparr>on = True, bri = 128, transition_s = 1,
                seg = [\<lparr>col = [(Num 128, Num 0, Num 128)], fx = 0, sx = 128, ix = 128\<rparr>]\<rparr>\<rparr>]"
    by (simp add: start_config_def initial_state_def)
  show ?thesis
    using a b d e by (intro conjI)
qed

subsection \<open>Scraper results while monitoring is disabled\<close>

lemma hsc_requests:
  "\<not> isMonitoring s \<Longrightarrow>
     wledRequests (handleStatusChange cfg dev now None (Some r) s) = wledRequests s"
  by (simp add: handleStatusChange_def Let_def broadcastDebugInfo_def broadcastCallStats_def
        broadcastTeamStatus_def split: option.splits agents_result.splits)

lemma hsc_currentStatus:
  "\<not> isMonitoring s \<Longrightarrow>
     currentStatus (handleStatusChange cfg dev now None (Some r) s) = currentStatus s"
  by (simp add: handleStatusChange_def Let_def broadcastDebugInfo_def broadcastCallStats_def
        broadcastTeamStatus_def split: option.splits agents_result.splits)

lemma hsc_callStats:
  "\<not> isMonitoring s \<Longrightarrow> sr_callStats r = Some stats \<Longrightarrow>
     latestCallStats (handleStatusChange cfg dev now None (Some r) s) = stats"
  by (simp add: handleStatusChange_def Let_def broadcastDebugInfo_def broadcastCallStats_def
        broadcastTeamStatus_def split: option.splits agents_result.splits)

lemma hsc_callStats_sent:
  "\<not> isMonitoring s \<Longrightarrow> sr_callStats r = Some stats \<Longrightarrow> c \<in> set (clients s) \<Longrightarrow> readyOpen c \<Longrightarrow>
     (client_id c, CallStatsMessage stats) \<in> set (sent (handleStatusChange cfg dev now None (Some r) s))"
  by (auto simp: handleStatusChange_def Let_def broadcastDebugInfo_def broadcastCallStats_def
        broadcastTeamStatus_def image_iff split: option.splits agents_result.splits)

lemma hsc_roster:
  "\<not> isMonitoring s \<Longrightarrow> sr_agentStatuses r = Agents roster \<Longrightarrow>
     teamStatus (handleStatusChange cfg dev now None (Some r) s) = roster \<and>
     latestAgentStatuses (handleStatusChange cfg dev now None (Some r) s) = roster"
  by (simp add: handleStatusChange_def Let_def broadcastDebugInfo_def broadcastCallStats_def
        broadcastTeamStatus_def split: option.splits agents_result.splits)

lemma hsc_no_status_message:
  "\<not> isMonitoring s \<Longrightarrow>
     list_all (\<lambda>x. \<not> isStatusUpdate (snd x) \<and> \<not> isWledMessage (snd x))
       (drop (length (sent s)) (sent (handleStatusChange cfg dev now None (Some r) s)))"
  by (auto simp: handleStatusChange_def Let_def broadcastDebugInfo_def broadcastCallStats_def
        broadcastTeamStatus_def list_all_iff split: option.splits agents_result.splits)

text \<open>
  C4 (as stated, refuted).  With monitoring disabled and \<open>currentStatus = offline\<close>, a
  scraper result with status \<open>available\<close> leaves \<open>currentStatus\<close> at \<open>offline\<close>: the
  assignment to \<open>currentStatus\<close> stands inside the branch guarded by \<open>isMonitoring\<close>.
\<close>

theorem handleStatusChange_monitoring_disabled_counterexample:
  "currentStatus
     (handleStatusChange start_config (\<lambda>request. HttpOk) 0 None
        (Some \<lparr>sr_status = Some \<lparr>result_status = ''available'', result_source = ''default''\<rparr>,
               sr_callStats = None, sr_agentStatuses = AgentsNull, sr_debugInfo = None\<rparr>)
        (initial_state\<lparr>isMonitoring := False\<rparr>)) = ''offline''"
  by (simp add: handleStatusChange_def Let_def initial_state_def)

text \<open>
  C4 (amended).  When the monitoring flag is false and a scraper result arrives without
  error, no LED command is issued, \<open>currentStatus\<close> keeps its value and neither a status
  broadcast nor a WLED message is sent; the call statistics of the result are stored and
  broadcast to every open client, and its roster is stored.
\<close>

theorem handleStatusChange_monitoring_disabled:
  "\<not> isMonitoring s \<longrightarrow>
     wledRequests (handleStatusChange cfg dev now None (Some r) s) = wledRequests s \<and>
     currentStatus (handleStatusChange cfg dev now None (Some r) s) = currentStatus s \<and>
     list_all (\<lambda>x. \<not> isStatusUpdate (snd x) \<and> \<not> isWledMessage (snd x))
       (drop (length (sent s)) (sent (handleStatusChange cfg dev now None (Some r) s))) \<and>
     (\<forall>stats. sr_callStats r = Some stats \<longrightarrow>
        latestCallStats (handleStatusChange cfg dev now None (Some r) s) = stats \<and>
        (\<forall>c \<in> set (clients s). readyOpen c \<longrightarrow>
           (client_id c, CallStatsMessage stats) \<in> set (sent (handleStatusChange cfg dev now None (Some r) s)))) \<and>
     (\<forall>roster. sr_agentStatuses r = Agents roster \<longrightarrow>
        teamStatus (handleStatusChange cfg dev now None (Some r) s) = roster \<and> latestAgentStatuses (handleStatusChange cfg dev now None (Some r) s) = roster)"
proof (intro impI conjI allI ballI)
  assume off: "\<not> isMonitoring s"
  show "wledRequests (handleStatusChange cfg dev now None (Some r) s) = wledRequests s"
    using off by (rule hsc_requests)
  show "currentStatus (handleStatusChange cfg dev now None (Some r) s) = currentStatus s"
    using off by (rule hsc_currentStatus)
  show "list_all (\<lambda>x. \<not> isStatusUpdate (snd x) \<and> \<not> isWledMessage (snd x))
       (drop (length (sent s)) (sent (handleStatusChange cfg dev now None (Some r) s)))"
    using off by (rule hsc_no_status_message)
  {
    fix stats
    assume st: "sr_callStats r = Some stats"
    show "latestCallStats (handleStatusChange cfg dev now None (Some r) s) = stats"
      using off st by (rule hsc_callStats)
    fix c
    assume "c \<in> set (clients s)" and "readyOpen c"
    with off st show "(client_id c, CallStatsMessage stats) \<in> set (sent (handleStatusChange cfg dev now None (Some r) s))"
      by (rule hsc_callStats_sent)
  }
  fix roster
  assume ro: "sr_agentStatuses r = Agents roster"
  show "teamStatus (handleStatusChange cfg dev now None (Some r) s) = roster"
    using hsc_roster [OF off ro] by blast
  show "latestAgentStatuses (handleStatusChange cfg dev now None (Some r) s) = roster"
    using hsc_roster [OF off ro] by blast
qed

theorem handleStatusChange_monitoring_disabled_witness:
  "\<not> isMonitoring (initial_state\<lparr>isMonitoring := False\<rparr>) \<and>
   wledRequests
     (handleStatusChange start_config (\<lambda>request. HttpOk) 5 None
        (Some \<lparr>sr_status = Some \<lparr>result_status = ''dnd'', result_source = ''default''\<rparr>,
               sr_callStats = None, sr_agentStatuses = Agents [], sr_debugInfo = None\<rparr>)
        (initial_state\<lparr>isMonitoring := False\<rparr>)) = [] \<and>
   currentStatus
     (handleStatusChange start_config (\<lambda>request. HttpOk) 5 None
        (Some \<lparr>sr_status = Some \<lparr>result_status = ''dnd'', result_source = ''default''\<rparr>,
               sr_callStats = None, sr_agentStatuses = Agents [], sr_debugInfo = None\<rparr>)
        (initial_state\<lparr>isMonitoring := False\<rparr>)) = ''offline''"
proof -
  let ?s = "initial_state\<lparr>isMonitoring := False\<rparr>"
  let ?r = "\<lparr>sr_status = Some \<lparr>result_status = ''dnd'', result_source = ''default''\<rparr>,
             sr_callStats = None, sr_agentStatuses = Agents [], sr_debugInfo = None\<rparr>"
  have off: "\<not> isMonitoring ?s"
    by simp
  note th = handleStatusChange_monitoring_disabled
              [of ?s start_config "\<lambda>request. HttpOk" 5 ?r, rule_format, OF off]
  have "wledRequests (handleStatusChange start_config (\<lambda>request. HttpOk) 5 None (Some ?r) ?s) =
          wledRequests ?s"
    using th by blast
  moreover have "currentStatus (handleStatusChange start_config (\<lambda>request. HttpOk) 5 None (Some ?r) ?s) =
          currentStatus ?s"
    using th by blast
  ultimately show ?thesis
    using off by (simp add: initial_state_def)
qed

subsection \<open>Statuses without a colour\<close>

text \<open>
  A status that is no key of the table and no name of \<open>Object.prototype\<close>, such as the
  normaliser's \<open>on-call\<close>, is skipped by the guard \<open>if (color)\<close>: nothing is sent.
\<close>

lemma updateWLEDWithStatus_unknown:
  assumes "st \<notin> {''available'', ''ringing'', ''onCall'', ''dnd'', ''away'', ''offline''}"
    and "\<not> inheritedName st"
  shows "updateWLEDWithStatus cfg dev st s = (Inr None, s)"
  using assms by (simp add: updateWLEDWithStatus_def statusColors_get_Undefined [THEN iffD2])

lemma on_call_unknown:
  "''on-call'' \<notin> {''available'', ''ringing'', ''onCall'', ''dnd'', ''away'', ''offline''} \<and>
   \<not> inheritedName ''on-call''"
  by (simp add: inheritedName_def objectPrototypeFunctions_def)

lemma updateWLEDWithStatus_on_call:
  "updateWLEDWithStatus cfg dev ''on-call'' s = (Inr None, s)"
  using on_call_unknown [THEN conjunct1] on_call_unknown [THEN conjunct2]
  by (rule updateWLEDWithStatus_unknown)

text \<open>
  The name of a function inherited from \<open>Object.prototype\<close> passes the guard as well:
  \<open>updateWLED\<close> rejects the function, and the failure is broadcast.
\<close>

lemma updateWLEDWithStatus_constructor:
  "updateWLEDWithStatus start_config (\<lambda>request. HttpOk) ''constructor''
     (initial_state\<lparr>clients := [\<lparr>client_id = 1, readyOpen = True\<rparr>]\<rparr>) =
   (Inr (Some False),
    initial_state\<lparr>clients := [\<lparr>client_id = 1, readyOpen = True\<rparr>],
                   sent := [(1, WledMessage False None)]\<rparr>)"
  by (simp add: updateWLEDWithStatus_def statusColors_get_def statusColors_def
        objectPrototypeFunctions_def updateWLED_def updateWLED_try_def start_config_def
        broadcastWLEDStatus_def initial_state_def)

text \<open>
  C10.  The claim: for a status that is none of the six keys of \<open>statusColors\<close>,
  \<open>updateWLEDWithStatus\<close> sends no LED command and no WLED message and returns
  \<open>undefined\<close>.  The code: the status \<open>__proto__\<close> is none of the six keys, yet
  \<open>config.wled.statusColors['__proto__']\<close> is the prototype object, which is truthy and
  an object without \<open>r\<close>, \<open>g\<close>, \<open>b\<close>; it passes the guard \<open>if (color)\<close>, the LED is
  commanded to black, the outcome is broadcast and the result is \<open>true\<close>.  The WebSocket
  status command hands such a status to the function.
\<close>

theorem updateWLEDWithStatus_proto:
  "''__proto__'' \<notin> {''available'', ''ringing'', ''onCall'', ''dnd'', ''away'', ''offline''} \<and>
   fst (updateWLEDWithStatus start_config (\<lambda>request. HttpOk) ''__proto__''
          (initial_state\<lparr>clients := [\<lparr>client_id = 1, readyOpen = True\<rparr>]\<rparr>)) = Inr (Some True) \<and>
   wledRequests (snd (updateWLEDWithStatus start_config (\<lambda>request. HttpOk) ''__proto__''
          (initial_state\<lparr>clients := [\<lparr>client_id = 1, readyOpen = True\<rparr>]\<rparr>))) =
     [\<lparr>url = ''http://192.168.111.50/json'',
       body = \<lparr>on = True, bri = 128, transition_s = 1,
                seg = [\<lparr>col = [(Num 0, Num 0, Num 0)], fx = 0, sx = 128, ix = 128\<rparr>]\<rparr>\<rparr>] \<and>
   sent (snd (updateWLEDWithStatus start_config (\<lambda>request. HttpOk) ''__proto__''
          (initial_state\<lparr>clients := [\<lparr>client_id = 1, readyOpen = True\<rparr>]\<rparr>))) =
     [(1, WledMessage True None)] \<and>
   wledRequests (onMessage start_config (\<lambda>request. HttpOk) 1
          (StatusCommand (Some ''__proto__'') None)
          (initial_state\<lparr>clients := [\<lparr>client_id = 1, readyOpen = True\<rparr>]\<rparr>)) =
     [\<lparr>url = ''http://192.168.111.50/json'',
       body = \<lparr>on = True, bri = 128, transition_s = 1,
                seg = [\<lparr>col = [(Num 0, Num 0, Num 0)], fx = 0, sx = 128, ix = 128\<rparr>]\<rparr>\<rparr>]"
proof -
  have c: "colorByte ''undefined'' = Num 0"
    by code_simp
  have g: "statusColors_get ''__proto__'' = InheritedPrototype"
    by (simp add: statusColors_get_def statusColors_def)
  have u: "updateWLEDWithStatus start_config (\<lambda>request. HttpOk) ''__proto__''
          (initial_state\<lparr>clients := [\<lparr>client_id = 1, readyOpen = True\<rparr>]\<rparr>) =
     (Inr (Some True),
      initial_state\<lparr>clients := [\<lparr>client_id = 1, readyOpen = True\<rparr>],
        wledRequests :=
          [\<lparr>url = ''http://192.168.111.50/json'',
            body = \<lparr>on = True, bri = 128, transition_s = 1,
                     seg = [\<lparr>col = [(Num 0, Num 0, Num 0)], fx = 0, sx = 128, ix = 128\<rparr>]\<rparr>\<rparr>],
        sent := [(1, WledMessage True None)]\<rparr>)"
    by (simp add: updateWLEDWithStatus_def g updateWLED_def updateWLED_try_def start_config_def c
          broadcastWLEDStatus_def sendToAll_def initial_state_def)
  have p: "''__proto__'' \<noteq> []"
    by simp
  have w: "wledRequests (onMessage start_config (\<lambda>request. HttpOk) 1
          (StatusCommand (Some ''__proto__'') None)
          (initial_state\<lparr>clients := [\<lparr>client_id = 1, readyOpen = True\<rparr>]\<rparr>)) =
     [\<lparr>url = ''http://192.168.111.50/json'',
       body = \<lparr>on = True, bri = 128, transition_s = 1,
                seg = [\<lparr>col = [(Num 0, Num 0, Num 0)], fx = 0, sx = 128, ix = 128\<rparr>]\<rparr>\<rparr>]"
    unfolding onMessage_requests [OF p]
    by (simp add: g updateWLED_def updateWLED_try_def start_config_def c initial_state_def)
  show ?thesis
    using u w by simp
qed

section \<open>Properties of the presence scraper\<close>

subsection \<open>Screenshot caps\<close>

lemma takeScreenshot_unforced:
  assumes "fst (takeScreenshot cfg env prefix False st) \<noteq> None"
  shows "enabled cfg \<and> screenshotCount st < maxPerSession cfg \<and>
         minInterval cfg \<le> clock env - lastScreenshotTime st"
  using assms by (auto simp: takeScreenshot_def Let_def split: if_splits)

lemma takeScreenshot_unforced_taken:
  assumes "enabled cfg" "screenshotCount st < maxPerSession cfg"
    "minInterval cfg \<le> clock env - lastScreenshotTime st"
    "pageSet env" "mkdirResult env \<noteq> MkdirFails" "screenshotSucceeds env"
  shows "fst (takeScreenshot cfg env prefix False st) = Some (screenshotPath env prefix)"
  using assms by (simp add: takeScreenshot_def Let_def)

lemma takeScreenshot_forced:
  "fst (takeScreenshot cfg env prefix True st) =
     (if pageSet env \<and> mkdirResult env \<noteq> MkdirFails \<and> screenshotSucceeds env
      then Some (screenshotPath env prefix) else None)"
  by (simp add: takeScreenshot_def Let_def)

lemma takeScreenshot_counters:
  "snd (takeScreenshot cfg env prefix True st) =
     st\<lparr>lastScreenshotTime := clock env, screenshotCount := screenshotCount st + 1\<rparr>"
  by (simp add: takeScreenshot_def Let_def)

text \<open>
  C9 (as stated, refuted).  With screenshots disabled (the default configuration), the
  count at its maximum and the last shot 100 ms ago, a forced request is still taken:
  \<open>force\<close> also bypasses the enable flag.
\<close>

theorem takeScreenshot_force_counterexample:
  "\<not> enabled default_screenshots \<and>
   fst (takeScreenshot default_screenshots
          \<lparr>clock = 1000, pageSet = True, mkdirResult = MkdirExists, screenshotSucceeds = True,
           screenshotsDir = ''public/screenshots'', isoTime = ''2025-01-01T10:00:00.000Z''\<rparr>
          ''login-check'' True
          \<lparr>lastScreenshotTime = 900, screenshotCount = 20\<rparr>) =
     Some ''public/screenshots/login-check-screenshot-2025-01-01T10-00-00.000Z.png''"
  by (simp add: takeScreenshot_def default_screenshots_def screenshotPath_def Let_def)

text \<open>
  C9 (amended).  A request without \<open>force\<close> is taken only if screenshots are enabled,
  the session count is below the maximum and at least the minimum interval has passed
  since the last shot; under these three conditions it is taken whenever the page is set
  and the file operations succeed.  A request with \<open>force\<close> bypasses all three caps,
  the enable flag included: it depends on the page and the file operations only.  The
  defaults are: disabled, 60000 ms, 20 shots.
\<close>

theorem takeScreenshot_caps:
  "(fst (takeScreenshot cfg env prefix False st) \<noteq> None \<longrightarrow>
      enabled cfg \<and> screenshotCount st < maxPerSession cfg \<and>
      minInterval cfg \<le> clock env - lastScreenshotTime st) \<and>
   (enabled cfg \<and> screenshotCount st < maxPerSession cfg \<and>
    minInterval cfg \<le> clock env - lastScreenshotTime st \<and>
    pageSet env \<and> mkdirResult env \<noteq> MkdirFails \<and> screenshotSucceeds env \<longrightarrow>
      fst (takeScreenshot cfg env prefix False st) = Some (screenshotPath env prefix)) \<and>
   fst (takeScreenshot cfg env prefix True st) =
     (if pageSet env \<and> mkdirResult env \<noteq> MkdirFails \<and> screenshotSucceeds env
      then Some (screenshotPath env prefix) else None) \<and>
   \<not> enabled default_screenshots \<and>
   minInterval default_screenshots = 60000 \<and>
   maxPerSession default_screenshots = 20"
proof (intro conjI impI)
  assume "fst (takeScreenshot cfg env prefix False st) \<noteq> None"
  from takeScreenshot_unforced [OF this]
  show "enabled cfg" and "screenshotCount st < maxPerSession cfg"
    and "minInterval cfg \<le> clock env - lastScreenshotTime st"
    by simp_all
next
  assume "enabled cfg \<and> screenshotCount st < maxPerSession cfg \<and>
    minInterval cfg \<le> clock env - lastScreenshotTime st \<and>
    pageSet env \<and> mkdirResult env \<noteq> MkdirFails \<and> screenshotSucceeds env"
  then show "fst (takeScreenshot cfg env prefix False st) = Some (screenshotPath env prefix)"
    by (simp add: takeScreenshot_unforced_taken)
next
  show "fst (takeScreenshot cfg env prefix True st) =
     (if pageSet env \<and> mkdirResult env \<noteq> MkdirFails \<and> screenshotSucceeds env
      then Some (screenshotPath env prefix) else None)"
    by (rule takeScreenshot_forced)
qed (simp_all add: default_screenshots_def)

theorem takeScreenshot_caps_witness:
  "fst (takeScreenshot \<lparr>enabled = True, minInterval = 60000, maxPerSession = 20\<rparr>
          \<lparr>clock = 70000, pageSet = True, mkdirResult = MkdirOk, screenshotSucceeds = True,
           screenshotsDir = ''public/screenshots'', isoTime = ''2025-01-01T10:00:00.000Z''\<rparr>
          ''3cx'' False
          \<lparr>lastScreenshotTime = 0, screenshotCount = 19\<rparr>) =
     Some ''public/screenshots/3cx-screenshot-2025-01-01T10-00-00.000Z.png''"
proof -
  let ?cfg = "\<lparr>enabled = True, minInterval = 60000, maxPerSession = 20\<rparr>"
  let ?env = "\<lparr>clock = 70000, pageSet = True, mkdirResult = MkdirOk, screenshotSucceeds = True,
           screenshotsDir = ''public/screenshots'', isoTime = ''2025-01-01T10:00:00.000Z''\<rparr>"
  let ?st = "\<lparr>lastScreenshotTime = 0, screenshotCount = 19\<rparr>"
  have h: "enabled ?cfg \<and> screenshotCount ?st < maxPerSession ?cfg \<and>
    minInterval ?cfg \<le> clock ?env - lastScreenshotTime ?st \<and>
    pageSet ?env \<and> mkdirResult ?env \<noteq> MkdirFails \<and> screenshotSucceeds ?env"
    by simp
  have "fst (takeScreenshot ?cfg ?env ''3cx'' False ?st) = Some (screenshotPath ?env ''3cx'')"
    using takeScreenshot_caps [of ?cfg ?env "''3cx''" ?st, THEN conjunct2, THEN conjunct1] h
    by (rule mp)
  then show ?thesis
    by (simp add: screenshotPath_def)
qed

subsection \<open>Call statistics\<close>

lemma extractQueueStats_total:
  assumes "extractQueueStats now d = Some st"
  shows "totalCalls st = jsAdd (jsAdd (servicedCalls st) (abandonedCalls st)) (waitingCalls st)"
  using assms
  by (auto simp: extractQueueStats_def Let_def split: option.splits if_splits)

lemma zeroStats_counters:
  "totalCalls (zeroStats now src) = Num 0 \<and> waitingCalls (zeroStats now src) = Num 0 \<and>
   servicedCalls (zeroStats now src) = Num 0 \<and> abandonedCalls (zeroStats now src) = Num 0"
  by (simp add: zeroStats_def)

lemma toDouble_zero: "toDouble 0 = Num 0"
  by (simp add: toDouble_exact)

lemma fetchCallStats_total:
  assumes "fetchCallStats b p now = Some st"
  shows "totalCalls st = jsAdd (jsAdd (servicedCalls st) (abandonedCalls st)) (waitingCalls st)"
  using assms
  by (auto simp: fetchCallStats_def zeroStats_counters toDouble_zero extractQueueStats_total
           split: if_splits page_state.splits option.splits)

lemma fetchCallStats_exact_total:
  assumes "fetchCallStats b p now = Some st"
    and "waitingCalls st = Num w" "servicedCalls st = Num sv" "abandonedCalls st = Num ab"
    and "\<bar>sv + ab\<bar> < 2 ^ 53" "\<bar>sv + ab + w\<bar> < 2 ^ 53"
  shows "totalCalls st = Num (w + sv + ab)"
  using fetchCallStats_total [OF assms(1)] jsAdd_exact [OF assms(5,6)]
  by (simp add: assms(2-4))

lemma fetchCallStats_returns:
  "\<exists>st. fetchCallStats True (PageOpen True d) now = Some st"
  by (simp add: fetchCallStats_def pageUnavailable_def split: option.splits)

lemma fetchCallStats_absent:
  assumes "extractQueueStats now d = None"
  shows "fetchCallStats True (PageOpen True d) now = Some (zeroStats now ''web'')"
  using assms by (simp add: fetchCallStats_def pageUnavailable_def)

lemma fetchCallStats_table:
  assumes "queueStatElement d = Some q" "headerRow q = Some headers" "dataRow q = Some cells"
    "statsMap_get (statsMap_of headers cells) ''waiting calls'' = Some w"
    "statsMap_get (statsMap_of headers cells) ''serviced calls'' = Some sv"
    "statsMap_get (statsMap_of headers cells) ''abandoned calls'' = Some ab"
  shows "\<exists>st. fetchCallStats True (PageOpen True d) now = Some st \<and>
           waitingCalls st = parseCount w \<and> servicedCalls st = parseCount sv \<and>
           abandonedCalls st = parseCount ab"
  using assms
  by (simp add: fetchCallStats_def pageUnavailable_def extractQueueStats_def Let_def)

text \<open>
  C7 (as stated, refuted).  For the table with 1 waiting, 1 serviced and
  9007199254740992 (\<open>2^53\<close>) abandoned calls, \<open>totalCalls\<close> is 9007199254740992: the sum
  of serviced and abandoned is rounded to a double before the waiting calls are added,
  and again after.  It is neither the sum of the three counts nor what the additions
  give in the order waiting, serviced, abandoned.
\<close>

theorem fetchCallStats_total_counterexample:
  "map_option waitingCalls
     (fetchCallStats True
        (statsTable [''Waiting Calls'', ''Serviced Calls'', ''Abandoned Calls'']
           [''1'', ''1'', ''9007199254740992'']) 7) = Some (Num 1) \<and>
   map_option servicedCalls
     (fetchCallStats True
        (statsTable [''Waiting Calls'', ''Serviced Calls'', ''Abandoned Calls'']
           [''1'', ''1'', ''9007199254740992'']) 7) = Some (Num 1) \<and>
   map_option abandonedCalls
     (fetchCallStats True
        (statsTable [''Waiting Calls'', ''Serviced Calls'', ''Abandoned Calls'']
           [''1'', ''1'', ''9007199254740992'']) 7) = Some (Num 9007199254740992) \<and>
   map_option totalCalls
     (fetchCallStats True
        (statsTable [''Waiting Calls'', ''Serviced Calls'', ''Abandoned Calls'']
           [''1'', ''1'', ''9007199254740992'']) 7) = Some (Num 9007199254740992) \<and>
   (1 :: int) + 1 + 9007199254740992 \<noteq> 9007199254740992 \<and>
   jsAdd (jsAdd (Num 1) (Num 1)) (Num 9007199254740992) \<noteq> Num 9007199254740992"
  by code_simp

text \<open>
  C7 (amended).  Whenever \<open>fetchCallStats\<close> returns statistics, \<open>totalCalls\<close> is the
  sum of \<open>servicedCalls\<close>, \<open>abandonedCalls\<close> and \<open>waitingCalls\<close> added in this order as
  numbers of the language; it is the exact sum of the three counts whenever the sum of
  the first two and the sum of all three are below \<open>2^53\<close> in magnitude.  On an open
  page whose extraction runs it always returns statistics: for a table with the three
  headers, the three counts are the parsed cells, whatever other columns (such as a
  total) the table shows, and a cell that is the decimal text of an integer below
  \<open>2^53\<close> is parsed to that integer; when the table structure is absent, the zeroed
  defaults, whose four counters are 0.
\<close>

theorem fetchCallStats_total_is_rounded_sum:
  "(\<forall>st. fetchCallStats b p now = Some st \<longrightarrow>
      totalCalls st = jsAdd (jsAdd (servicedCalls st) (abandonedCalls st)) (waitingCalls st)) \<and>
   (\<forall>st w sv ab.
      fetchCallStats b p now = Some st \<and>
      waitingCalls st = Num w \<and> servicedCalls st = Num sv \<and> abandonedCalls st = Num ab \<and>
      \<bar>sv + ab\<bar> < 2 ^ 53 \<and> \<bar>sv + ab + w\<bar> < 2 ^ 53 \<longrightarrow>
      totalCalls st = Num (w + sv + ab)) \<and>
   (\<exists>st. fetchCallStats True (PageOpen True d) now = Some st) \<and>
   (\<forall>q headers cells w sv ab.
      queueStatElement d = Some q \<and> headerRow q = Some headers \<and> dataRow q = Some cells \<and>
      statsMap_get (statsMap_of headers cells) ''waiting calls'' = Some w \<and>
      statsMap_get (statsMap_of headers cells) ''serviced calls'' = Some sv \<and>
      statsMap_get (statsMap_of headers cells) ''abandoned calls'' = Some ab \<longrightarrow>
      (\<exists>st. fetchCallStats True (PageOpen True d) now = Some st \<and>
         waitingCalls st = parseCount w \<and> servicedCalls st = parseCount sv \<and>
         abandonedCalls st = parseCount ab)) \<and>
   (\<forall>n. \<bar>n\<bar> < 2 ^ 53 \<longrightarrow> parseCount (numberToString n) = Num n) \<and>
   (extractQueueStats now d = None \<longrightarrow>
      fetchCallStats True (PageOpen True d) now = Some (zeroStats now ''web'')) \<and>
   totalCalls (zeroStats now src) = Num 0 \<and> waitingCalls (zeroStats now src) = Num 0 \<and>
   servicedCalls (zeroStats now src) = Num 0 \<and> abandonedCalls (zeroStats now src) = Num 0"
proof (intro conjI allI impI)
  fix st
  assume "fetchCallStats b p now = Some st"
  then show "totalCalls st = jsAdd (jsAdd (servicedCalls st) (abandonedCalls st)) (waitingCalls st)"
    by (rule fetchCallStats_total)
next
  fix st w sv ab
  assume "fetchCallStats b p now = Some st \<and>
      waitingCalls st = Num w \<and> servicedCalls st = Num sv \<and> abandonedCalls st = Num ab \<and>
      \<bar>sv + ab\<bar> < 2 ^ 53 \<and> \<bar>sv + ab + w\<bar> < 2 ^ 53"
  then show "totalCalls st = Num (w + sv + ab)"
    using fetchCallStats_exact_total [of b p now st w sv ab] by simp
next
  show "\<exists>st. fetchCallStats True (PageOpen True d) now = Some st"
    by (rule fetchCallStats_returns)
next
  fix q headers cells w sv ab
  assume "queueStatElement d = Some q \<and> headerRow q = Some headers \<and> dataRow q = Some cells \<and>
      statsMap_get (statsMap_of headers cells) ''waiting calls'' = Some w \<and>
      statsMap_get (statsMap_of headers cells) ''serviced calls'' = Some sv \<and>
      statsMap_get (statsMap_of headers cells) ''abandoned calls'' = Some ab"
  then show "\<exists>st. fetchCallStats True (PageOpen True d) now = Some st \<and>
         waitingCalls st = parseCount w \<and> servicedCalls st = parseCount sv \<and>
         abandonedCalls st = parseCount ab"
    using fetchCallStats_table [of d q headers cells w sv ab now] by simp
next
  fix n :: int
  assume "\<bar>n\<bar> < 2 ^ 53"
  then show "parseCount (numberToString n) = Num n"
    by (rule parseCount_integer)
next
  assume "extractQueueStats now d = None"
  then show "fetchCallStats True (PageOpen True d) now = Some (zeroStats now ''web'')"
    by (rule fetchCallStats_absent)
next
  show "totalCalls (zeroStats now src) = Num 0"
    using zeroStats_counters by (rule conjunct1)
next
  show "waitingCalls (zeroStats now src) = Num 0"
    by (simp add: zeroStats_def)
next
  show "servicedCalls (zeroStats now src) = Num 0"
    by (simp add: zeroStats_def)
next
  show "abandonedCalls (zeroStats now src) = Num 0"
    by (simp add: zeroStats_def)
qed

theorem fetchCallStats_total_is_rounded_sum_witness:
  "map_option totalCalls
     (fetchCallStats True
        (statsTable [''Waiting Calls'', '' Serviced calls '', ''Abandoned Calls'', ''Total Calls'']
           [''2'', ''5 '', ''1'', ''99'']) 7) = Some (Num 8)"
proof -
  let ?headers = "[''Waiting Calls'', '' Serviced calls '', ''Abandoned Calls'', ''Total Calls'']"
  let ?cells = "[''2'', ''5 '', ''1'', ''99'']"
  let ?q = "\<lparr>headerRow = Some ?headers, dataRow = Some ?cells\<rparr>"
  let ?d = "\<lparr>queueStatElement = Some ?q, agentContainer = None\<rparr>"
  note th = fetchCallStats_total_is_rounded_sum [of True "PageOpen True ?d" 7 ?d]
  have w: "statsMap_get (statsMap_of ?headers ?cells) ''waiting calls'' = Some ''2''"
    by code_simp
  have sv: "statsMap_get (statsMap_of ?headers ?cells) ''serviced calls'' = Some ''5''"
    by code_simp
  have ab: "statsMap_get (statsMap_of ?headers ?cells) ''abandoned calls'' = Some ''1''"
    by code_simp
  have h: "queueStatElement ?d = Some ?q \<and> headerRow ?q = Some ?headers \<and>
      dataRow ?q = Some ?cells \<and>
      statsMap_get (statsMap_of ?headers ?cells) ''waiting calls'' = Some ''2'' \<and>
      statsMap_get (statsMap_of ?headers ?cells) ''serviced calls'' = Some ''5'' \<and>
      statsMap_get (statsMap_of ?headers ?cells) ''abandoned calls'' = Some ''1''"
    using w sv ab by simp
  have p: "parseCount ''2'' = Num 2" "parseCount ''5'' = Num 5" "parseCount ''1'' = Num 1"
    by code_simp+
  from th [THEN conjunct2, THEN conjunct2, THEN conjunct2, THEN conjunct1, rule_format, OF h]
  obtain st where st: "fetchCallStats True (PageOpen True ?d) 7 = Some st"
    and c: "waitingCalls st = Num 2" "servicedCalls st = Num 5" "abandonedCalls st = Num 1"
    using p by auto
  have small: "\<bar>5 + 1 :: int\<bar> < 2 ^ 53" "\<bar>5 + 1 + 2 :: int\<bar> < 2 ^ 53"
    by simp_all
  have "totalCalls st = Num (2 + 5 + 1)"
    using th [THEN conjunct2, THEN conjunct1, rule_format, of st 2 5 1] st c small
    by simp
  then show ?thesis
    using st by (simp add: statsTable_def)
qed

subsection \<open>Roster: \<open>null\<close> against the empty array\<close>

lemma fetchAll_null_iff:
  "fetchAllAgentStatuses b p = None \<longleftrightarrow>
     pageUnavailable b p \<or>
     (\<exists>evaluates d. p = PageOpen evaluates d \<and> (\<not> evaluates \<or> agentContainer d = None))"
  by (cases p) (auto simp: fetchAllAgentStatuses_def pageUnavailable_def split: option.splits)

lemma fetchAll_absent:
  "agentContainer d = None \<Longrightarrow> fetchAllAgentStatuses b (PageOpen evaluates d) = None"
  by (simp add: fetchAll_null_iff)

lemma fetchAll_empty:
  "agentContainer d = Some [] \<Longrightarrow> fetchAllAgentStatuses True (PageOpen True d) = Some []"
  by (simp add: fetchAllAgentStatuses_def pageUnavailable_def)

lemma hsc_null_roster:
  assumes "sr_agentStatuses r = AgentsNull"
  shows "teamStatus (handleStatusChange cfg dev now None (Some r) s) = teamStatus s \<and>
         latestAgentStatuses (handleStatusChange cfg dev now None (Some r) s) = latestAgentStatuses s"
  using assms
  by (simp add: handleStatusChange_def Let_def broadcastDebugInfo_def broadcastCallStats_def
        broadcastStatus_def split: option.splits)

lemma hsc_array_roster:
  assumes "sr_agentStatuses r = Agents roster"
  shows "teamStatus (handleStatusChange cfg dev now None (Some r) s) = roster \<and>
         latestAgentStatuses (handleStatusChange cfg dev now None (Some r) s) = roster"
  using assms
  by (simp add: handleStatusChange_def Let_def broadcastDebugInfo_def broadcastCallStats_def
        broadcastStatus_def broadcastTeamStatus_def split: option.splits)

lemma statusData_roster:
  "sr_agentStatuses (statusData st b p now) =
     (case fetchAllAgentStatuses b p of None \<Rightarrow> AgentsNull | Some roster \<Rightarrow> Agents roster)"
  by (simp add: statusData_def)

text \<open>
  C5 (as stated, refuted).  \<open>null\<close> is not returned only when the container is absent:
  on a page whose document has the container, a failing \<open>page.evaluate\<close> is caught and
  answered with \<open>null\<close> too.
\<close>

theorem fetchAllAgentStatuses_null_counterexample:
  "agentContainer \<lparr>queueStatElement = None, agentContainer = Some []\<rparr> \<noteq> None \<and>
   fetchAllAgentStatuses True
     (PageOpen False \<lparr>queueStatElement = None, agentContainer = Some []\<rparr>) = None"
  by (simp add: fetchAllAgentStatuses_def pageUnavailable_def)

text \<open>
  C5 (amended).  \<open>fetchAllAgentStatuses\<close> returns \<open>null\<close> whenever the roster container
  is absent, and otherwise only when the browser or the page is unavailable or the
  extraction throws; it returns the empty array when the container exists, lists no
  agent item and the extraction runs.  On a \<open>null\<close> result the core keeps the stored
  roster; on an empty array it overwrites the stored roster with the empty list.
\<close>

theorem fetchAllAgentStatuses_null_and_empty:
  "(agentContainer d = None \<longrightarrow> fetchAllAgentStatuses b (PageOpen evaluates d) = None) \<and>
   (fetchAllAgentStatuses b p = None \<longleftrightarrow>
      pageUnavailable b p \<or>
      (\<exists>evaluates d. p = PageOpen evaluates d \<and> (\<not> evaluates \<or> agentContainer d = None))) \<and>
   (agentContainer d = Some [] \<longrightarrow> fetchAllAgentStatuses True (PageOpen True d) = Some []) \<and>
   (fetchAllAgentStatuses b p = None \<longrightarrow>
      teamStatus (handleStatusChange cfg dev now None (Some (statusData st b p now)) s) =
        teamStatus s \<and>
      latestAgentStatuses (handleStatusChange cfg dev now None (Some (statusData st b p now)) s) =
        latestAgentStatuses s) \<and>
   (fetchAllAgentStatuses b p = Some [] \<longrightarrow>
      teamStatus (handleStatusChange cfg dev now None (Some (statusData st b p now)) s) = [] \<and>
      latestAgentStatuses (handleStatusChange cfg dev now None (Some (statusData st b p now)) s) =
        [])"
proof (intro conjI impI)
  assume "agentContainer d = None"
  then show "fetchAllAgentStatuses b (PageOpen evaluates d) = None"
    by (rule fetchAll_absent)
next
  show "fetchAllAgentStatuses b p = None \<longleftrightarrow>
      pageUnavailable b p \<or>
      (\<exists>evaluates d. p = PageOpen evaluates d \<and> (\<not> evaluates \<or> agentContainer d = None))"
    by (rule fetchAll_null_iff)
next
  assume "agentContainer d = Some []"
  then show "fetchAllAgentStatuses True (PageOpen True d) = Some []"
    by (rule fetchAll_empty)
next
  assume "fetchAllAgentStatuses b p = None"
  then have n: "sr_agentStatuses (statusData st b p now) = AgentsNull"
    by (simp add: statusData_roster)
  show "teamStatus (handleStatusChange cfg dev now None (Some (statusData st b p now)) s) =
        teamStatus s"
    using hsc_null_roster [OF n] by blast
  show "latestAgentStatuses (handleStatusChange cfg dev now None (Some (statusData st b p now)) s) =
        latestAgentStatuses s"
    using hsc_null_roster [OF n] by blast
next
  assume "fetchAllAgentStatuses b p = Some []"
  then have e: "sr_agentStatuses (statusData st b p now) = Agents []"
    by (simp add: statusData_roster)
  show "teamStatus (handleStatusChange cfg dev now None (Some (statusData st b p now)) s) = []"
    using hsc_array_roster [OF e] by blast
  show "latestAgentStatuses (handleStatusChange cfg dev now None (Some (statusData st b p now)) s) =
        []"
    using hsc_array_roster [OF e] by blast
qed

theorem fetchAllAgentStatuses_null_and_empty_witness:
  "fetchAllAgentStatuses True (PageOpen True \<lparr>queueStatElement = None, agentContainer = None\<rparr>) = None \<and>
   teamStatus
     (handleStatusChange start_config (\<lambda>request. HttpOk) 5 None
        (Some (statusData \<lparr>result_status = ''available'', result_source = ''default''\<rparr> True
                 (PageOpen True \<lparr>queueStatElement = None, agentContainer = None\<rparr>) 5))
        (initial_state\<lparr>teamStatus :=
           [\<lparr>agent_id = ''534'', agent_extension = ''534'', agent_name = ''Brett Healy'',
             agent_status = ''available'', agent_queues = [], agent_color = ''green''\<rparr>]\<rparr>)) =
     [\<lparr>agent_id = ''534'', agent_extension = ''534'', agent_name = ''Brett Healy'',
       agent_status = ''available'', agent_queues = [], agent_color = ''green''\<rparr>] \<and>
   fetchAllAgentStatuses True (PageOpen True \<lparr>queueStatElement = None, agentContainer = Some []\<rparr>) =
     Some [] \<and>
   teamStatus
     (handleStatusChange start_config (\<lambda>request. HttpOk) 5 None
        (Some (statusData \<lparr>result_status = ''available'', result_source = ''default''\<rparr> True
                 (PageOpen True \<lparr>queueStatElement = None, agentContainer = Some []\<rparr>) 5))
        (initial_state\<lparr>teamStatus :=
           [\<lparr>agent_id = ''534'', agent_extension = ''534'', agent_name = ''Brett Healy'',
             agent_status = ''available'', agent_queues = [], agent_color = ''green''\<rparr>]\<rparr>)) = []"
proof -
  let ?absent = "\<lparr>queueStatElement = None, agentContainer = None\<rparr>"
  let ?empty = "\<lparr>queueStatElement = None, agentContainer = Some []\<rparr>"
  let ?st = "\<lparr>result_status = ''available'', result_source = ''default''\<rparr>"
  let ?a = "\<lparr>agent_id = ''534'', agent_extension = ''534'', agent_name = ''Brett Healy'',
             agent_status = ''available'', agent_queues = [], agent_color = ''green''\<rparr>"
  let ?s = "initial_state\<lparr>teamStatus := [?a]\<rparr>"
  have "agentContainer ?absent = None"
    by simp
  then have n: "fetchAllAgentStatuses True (PageOpen True ?absent) = None"
    using fetchAllAgentStatuses_null_and_empty
            [where d = ?absent and b = True and evaluates = True, THEN conjunct1]
    by (rule_tac mp)
  have "agentContainer ?empty = Some []"
    by simp
  then have e: "fetchAllAgentStatuses True (PageOpen True ?empty) = Some []"
    using fetchAllAgentStatuses_null_and_empty
            [where d = ?empty, THEN conjunct2, THEN conjunct2, THEN conjunct1]
    by (rule_tac mp)
  have "teamStatus (handleStatusChange start_config (\<lambda>request. HttpOk) 5 None
          (Some (statusData ?st True (PageOpen True ?absent) 5)) ?s) = teamStatus ?s"
    using fetchAllAgentStatuses_null_and_empty
            [where b = True and p = "PageOpen True ?absent" and s = ?s and st = ?st
               and cfg = start_config and dev = "\<lambda>request. HttpOk" and now = 5,
             THEN conjunct2, THEN conjunct2, THEN conjunct2, THEN conjunct1] n
    by blast
  then have kept: "teamStatus (handleStatusChange start_config (\<lambda>request. HttpOk) 5 None
          (Some (statusData ?st True (PageOpen True ?absent) 5)) ?s) = [?a]"
    by simp
  have cleared: "teamStatus (handleStatusChange start_config (\<lambda>request. HttpOk) 5 None
          (Some (statusData ?st True (PageOpen True ?empty) 5)) ?s) = []"
    using fetchAllAgentStatuses_null_and_empty
            [where b = True and p = "PageOpen True ?empty" and s = ?s and st = ?st
               and cfg = start_config and dev = "\<lambda>request. HttpOk" and now = 5,
             THEN conjunct2, THEN conjunct2, THEN conjunct2, THEN conjunct2] e
    by blast
  show ?thesis
    using n e kept cleared by (intro conjI)
qed

subsection \<open>Login timeout and initialisation\<close>

lemma waitLoop_never:
  assumes "\<forall>k. \<not> loginDetected (polls env k)"
  shows "waitLoop env elapsed k = False"
  using assms
proof (induction env elapsed k rule: waitLoop.induct)
  case (1 env elapsed k)
  have step: "waitLoop env elapsed k =
     (if elapsed < maxWaitTime
      then (if loginDetected (polls env k) then True
            else waitLoop env (elapsed + pollDuration env k + 5000) (Suc k))
      else False)"
    by (rule waitLoop.simps)
  show ?case
  proof (cases "elapsed < maxWaitTime")
    case True
    have quiet: "\<not> loginDetected (polls env k)"
      using "1.prems" by blast
    have "waitLoop env (elapsed + pollDuration env k + 5000) (Suc k) = False"
      using "1.IH" [OF True quiet "1.prems"] .
    with True quiet step show ?thesis by simp
  next
    case False
    with step show ?thesis by simp
  qed
qed

lemma waitForLogin_timeout:
  "\<forall>k. \<not> loginDetected (polls env k) \<Longrightarrow> waitForLogin env = False"
  by (simp add: waitForLogin_def waitLoop_never)

lemma initialize_try_ignores_login:
  "initialize_try (env\<lparr>login := l\<rparr>) = initialize_try env"
  unfolding initialize_try_def Let_def by (simp split: option.split)

lemma initialize_ignores_login:
  "initialize (env\<lparr>login := l\<rparr>) = initialize env"
  unfolding initialize_def initialize_try_ignores_login ..

lemma initialize_never_throws: "\<exists>b. resolved (initialize env) = Inr b"
  by (cases "resolved (initialize_try env)") (auto simp: initialize_def)

lemma login_page_not_logged_in: "is3CXLoggedIn login_page = False"
  by code_simp

lemma login_page_not_detected: "\<not> loginDetected (Observed login_page saved)"
  by (simp add: login_page_not_logged_in)

lemma nobody_polls: "polls (login nobody_logs_in) k = Observed login_page True"
  by (simp add: nobody_logs_in_def)

lemma nobody_initialize_try:
  "initialize_try nobody_logs_in = \<lparr>resolved = Inr True, refreshStarted = True\<rparr>"
  by (simp add: initialize_try_def Let_def nobody_logs_in_def keepCookie_def)

text \<open>
  C2.  Expected: when the login wait runs to its ceiling of ten minutes without seeing
  the success markers, \<open>initialize\<close> resolves to \<open>false\<close> and does not throw.  In the
  session \<open>nobody_logs_in\<close> every poll shows the login form, so \<open>waitForLogin\<close> returns
  \<open>false\<close> at the ceiling; \<open>initialize\<close> does not throw, but it discards that value,
  goes on, starts the refresh interval and resolves to \<open>true\<close>.
\<close>

theorem initialize_after_login_timeout:
  "waitForLogin (login nobody_logs_in) = False \<and>
   resolved (initialize nobody_logs_in) = Inr True \<and>
   refreshStarted (initialize nobody_logs_in) = True"
proof -
  have "\<not> loginDetected (polls (login nobody_logs_in) k)" for k
    unfolding nobody_polls by (rule login_page_not_detected)
  then have "waitForLogin (login nobody_logs_in) = False"
    by (simp add: waitForLogin_timeout)
  moreover have "resolved (initialize nobody_logs_in) = Inr True \<and>
    refreshStarted (initialize nobody_logs_in) = True"
    by (simp add: initialize_def nobody_initialize_try)
  ultimately show ?thesis by (intro conjI) simp_all
qed

subsection \<open>Debounce of mutation triggers\<close>





lemma elapse_none:
  assumes "pendingTimers s = []"
  shows "elapse d s = s"
  using assms by (simp add: elapse_def)













end
